theory Spec2Isabelle
  imports Complex_Main
begin

section \<open>Conventions of the embedding\<close>

text \<open>
  The development follows two files of FBPIC:
  \<^verbatim>\<open>fbpic/particles/gathering/threading_methods.py\<close> (the CPU field-gathering kernels) and
  \<^verbatim>\<open>fbpic/fields/interpolation_grid.py\<close> (the interpolation grids).

  \<^item> A Python \<^verbatim>\<open>float\<close> is a \<^typ>\<open>real\<close> and a Python \<^verbatim>\<open>complex\<close> a \<^typ>\<open>complex\<close>:
    rounding, overflow and non-finite values are outside the model.
  \<^item> A Python \<^verbatim>\<open>int\<close> is an \<^typ>\<open>int\<close>.
  \<^item> A 1d array is a list; a 2d array of shape \<open>(Nz, Nr)\<close> is a list of \<open>Nz\<close> rows of
    \<open>Nr\<close> entries, so that \<^verbatim>\<open>F[iz, ir]\<close> is entry \<open>ir\<close> of row \<open>iz\<close>.
  \<^item> A raised exception is a value of type \<open>error\<close>.
\<close>

type_synonym array2d = "complex list list"

datatype error = ZeroDivisionError | IndexError | AttributeError | ValueError string

section \<open>Shape factors of the gathering kernels\<close>

text \<open>
  The four kernels of \<^verbatim>\<open>threading_methods.py\<close> repeat the same blocks of code for every
  particle; each block is one definition here.

  Cylindrical conversion (lines 92--100, 255--263, 449--457, 589--597): the radius and
  the cosine and sine of the angle, with the convention \<open>cos = 1\<close>, \<open>sin = 0\<close> on the axis.
\<close>

definition cylindrical_conversion :: "real \<Rightarrow> real \<Rightarrow> real \<times> real \<times> real" where
  "cylindrical_conversion xj yj =
     (let rj = sqrt (xj\<^sup>2 + yj\<^sup>2) in
      if rj \<noteq> 0 then (let invr = 1 / rj in (rj, xj * invr, yj * invr))
      else (rj, 1, 0))"

text \<open>
  The linear stencil of one particle: two support indices and two weights on each axis,
  and the guard weight of the axis.
\<close>

record linear_stencil =
  ir_lower :: int
  ir_upper :: int
  iz_lower :: int
  iz_upper :: int
  Sr_lower :: real
  Sr_upper :: real
  Sz_lower :: real
  Sz_upper :: real
  Sr_guard :: real

text \<open>Lines 104--120 (and 265--281): cell coordinates, original indices, linear weights.\<close>

definition linear_weights ::
  "real \<Rightarrow> real \<Rightarrow> real \<Rightarrow> real \<Rightarrow> real \<Rightarrow> real \<Rightarrow> linear_stencil" where
  "linear_weights invdz zmin invdr rmin rj zj =
     (let r_cell = invdr * (rj - rmin) - 0.5;
          z_cell = invdz * (zj - zmin) - 0.5;
          irl = \<lfloor>r_cell\<rfloor>;
          iru = irl + 1;
          izl = \<lfloor>z_cell\<rfloor>;
          izu = izl + 1
      in \<lparr>ir_lower = irl, ir_upper = iru, iz_lower = izl, iz_upper = izu,
          Sr_lower = of_int iru - r_cell, Sr_upper = r_cell - of_int irl,
          Sz_lower = of_int izu - z_cell, Sz_upper = z_cell - of_int izl,
          Sr_guard = 0\<rparr>)"

text \<open>
  Lines 122--144 (and 283--305): the boundary conditions, a sequence of seven
  \<^verbatim>\<open>if\<close> statements in four commented blocks, each acting on the variables left
  by the previous one: guard cells in lower r, absorbing in upper r, and the periodic
  boundaries in z (lower, then upper).
\<close>

definition guard_cells_lower_r :: "linear_stencil \<Rightarrow> linear_stencil" where
  "guard_cells_lower_r s =
     (if ir_lower s < 0
      then s\<lparr>Sr_guard := Sr_lower s, Sr_lower := 0, ir_lower := 0\<rparr> else s)"

definition absorbing_upper_r :: "int \<Rightarrow> linear_stencil \<Rightarrow> linear_stencil" where
  "absorbing_upper_r Nr s =
     (let s1 = (if ir_lower s > Nr - 1 then s\<lparr>ir_lower := Nr - 1\<rparr> else s);
          s2 = (if ir_upper s1 > Nr - 1 then s1\<lparr>ir_upper := Nr - 1\<rparr> else s1)
      in s2)"

definition lower_z_boundaries :: "int \<Rightarrow> linear_stencil \<Rightarrow> linear_stencil" where
  "lower_z_boundaries Nz s =
     (let s1 = (if iz_lower s < 0 then s\<lparr>iz_lower := iz_lower s + Nz\<rparr> else s);
          s2 = (if iz_upper s1 < 0 then s1\<lparr>iz_upper := iz_upper s1 + Nz\<rparr> else s1)
      in s2)"

definition upper_z_boundaries :: "int \<Rightarrow> linear_stencil \<Rightarrow> linear_stencil" where
  "upper_z_boundaries Nz s =
     (let s1 = (if iz_lower s > Nz - 1 then s\<lparr>iz_lower := iz_lower s - Nz\<rparr> else s);
          s2 = (if iz_upper s1 > Nz - 1 then s1\<lparr>iz_upper := iz_upper s1 - Nz\<rparr> else s1)
      in s2)"

definition linear_boundaries :: "int \<Rightarrow> int \<Rightarrow> linear_stencil \<Rightarrow> linear_stencil" where
  "linear_boundaries Nz Nr s =
     upper_z_boundaries Nz (lower_z_boundaries Nz (absorbing_upper_r Nr (guard_cells_lower_r s)))"

definition linear_shape ::
  "real \<Rightarrow> real \<Rightarrow> int \<Rightarrow> real \<Rightarrow> real \<Rightarrow> int \<Rightarrow> real \<Rightarrow> real \<Rightarrow> linear_stencil" where
  "linear_shape invdz zmin Nz invdr rmin Nr rj zj =
     linear_boundaries Nz Nr (linear_weights invdz zmin invdr rmin rj zj)"

text \<open>
  Lines 467--479 (and 605--617): the cubic shape factors of one axis, as a function of
  the local coordinate, and the lowest support index with its four factors.
\<close>

definition cubic_shape_factors :: "real \<Rightarrow> real list" where
  "cubic_shape_factors u =
     [- 1 / 6 * (u - 2) ^ 3,
      1 / 6 * (3 * (u - 1) ^ 3 - 6 * (u - 1)\<^sup>2 + 4),
      1 / 6 * (3 * (2 - u) ^ 3 - 6 * (2 - u)\<^sup>2 + 4),
      - 1 / 6 * (1 - u) ^ 3]"

definition cubic_weights :: "real \<Rightarrow> int \<times> real list" where
  "cubic_weights cell =
     (let lowest = \<lfloor>cell\<rfloor> - 1;
          local = cell - of_int lowest
      in (lowest, cubic_shape_factors local))"

section \<open>The field-gathering kernels\<close>

text \<open>
  The kernels call four inline functions, \<^verbatim>\<open>add_linear_gather_for_mode\<close>,
  \<^verbatim>\<open>add_cubic_gather_for_mode\<close>, \<^verbatim>\<open>add_linear_envelope_gather_for_mode\<close> and
  \<^verbatim>\<open>add_cubic_envelope_gather_for_mode\<close>, imported from
  \<^verbatim>\<open>fbpic/particles/gathering/inline_functions.py\<close>. That file is not part of the sources
  followed here, so each kernel takes its inline function as its first argument: a pure
  function of the arguments the kernel passes, returning the updated sums.
\<close>

type_synonym linear_gather_for_mode =
  "int \<Rightarrow> real \<Rightarrow> real \<Rightarrow> real \<Rightarrow> complex \<Rightarrow> array2d \<Rightarrow> array2d \<Rightarrow> array2d \<Rightarrow>
   int \<Rightarrow> int \<Rightarrow> int \<Rightarrow> int \<Rightarrow> real \<Rightarrow> real \<Rightarrow> real \<Rightarrow> real \<Rightarrow> real \<Rightarrow> real \<Rightarrow>
   real \<times> real \<times> real"

type_synonym cubic_gather_for_mode =
  "int \<Rightarrow> real \<Rightarrow> real \<Rightarrow> real \<Rightarrow> complex \<Rightarrow> array2d \<Rightarrow> array2d \<Rightarrow> array2d \<Rightarrow>
   int \<Rightarrow> int \<Rightarrow> real list \<Rightarrow> real list \<Rightarrow> int \<Rightarrow> int \<Rightarrow>
   real \<times> real \<times> real"

type_synonym field_values = "real \<times> real \<times> real \<times> real \<times> real \<times> real"

type_synonym field_outputs =
  "real list \<times> real list \<times> real list \<times> real list \<times> real list \<times> real list"

text \<open>
  The body of the particle loop of \<^verbatim>\<open>gather_field_numba_linear\<close> (lines 85--196), as
  the six values it writes for a particle at \<open>(xj, yj, zj)\<close>. The values written to the
  float arrays \<^verbatim>\<open>Ex\<close>, ..., \<^verbatim>\<open>Bz\<close> are floats, so the sums \<^verbatim>\<open>Fr\<close>, \<^verbatim>\<open>Ft\<close>, \<^verbatim>\<open>Fz\<close> that the
  inline function returns are real.
\<close>

definition gather_linear_for_particle ::
  "linear_gather_for_mode \<Rightarrow> real \<Rightarrow> real \<Rightarrow> int \<Rightarrow> real \<Rightarrow> real \<Rightarrow> int \<Rightarrow>
   array2d \<Rightarrow> array2d \<Rightarrow> array2d \<Rightarrow> array2d \<Rightarrow> array2d \<Rightarrow> array2d \<Rightarrow>
   array2d \<Rightarrow> array2d \<Rightarrow> array2d \<Rightarrow> array2d \<Rightarrow> array2d \<Rightarrow> array2d \<Rightarrow>
   real \<Rightarrow> real \<Rightarrow> real \<Rightarrow> field_values" where
  "gather_linear_for_particle add_linear_gather_for_mode invdz zmin Nz invdr rmin Nr
       Er_m0 Et_m0 Ez_m0 Er_m1 Et_m1 Ez_m1 Br_m0 Bt_m0 Bz_m0 Br_m1 Bt_m1 Bz_m1 xj yj zj =
     (let (rj, cos_t, sin_t) = cylindrical_conversion xj yj;
          exptheta_m0 = 1;
          exptheta_m1 = complex_of_real cos_t - \<i> * complex_of_real sin_t;
          s = linear_shape invdz zmin Nz invdr rmin Nr rj zj;
          S_ll = Sz_lower s * Sr_lower s;
          S_lu = Sz_lower s * Sr_upper s;
          S_ul = Sz_upper s * Sr_lower s;
          S_uu = Sz_upper s * Sr_upper s;
          S_lg = Sz_lower s * Sr_guard s;
          S_ug = Sz_upper s * Sr_guard s;
          (Fr, Ft, Fz) = add_linear_gather_for_mode 0 0 0 0 exptheta_m0 Er_m0 Et_m0 Ez_m0
             (iz_lower s) (iz_upper s) (ir_lower s) (ir_upper s) S_ll S_lu S_lg S_ul S_uu S_ug;
          (Fr, Ft, Fz) = add_linear_gather_for_mode 1 Fr Ft Fz exptheta_m1 Er_m1 Et_m1 Ez_m1
             (iz_lower s) (iz_upper s) (ir_lower s) (ir_upper s) S_ll S_lu S_lg S_ul S_uu S_ug;
          Ex_i = cos_t * Fr - sin_t * Ft;
          Ey_i = sin_t * Fr + cos_t * Ft;
          Ez_i = Fz;
          (Fr, Ft, Fz) = add_linear_gather_for_mode 0 0 0 0 exptheta_m0 Br_m0 Bt_m0 Bz_m0
             (iz_lower s) (iz_upper s) (ir_lower s) (ir_upper s) S_ll S_lu S_lg S_ul S_uu S_ug;
          (Fr, Ft, Fz) = add_linear_gather_for_mode 1 Fr Ft Fz exptheta_m1 Br_m1 Bt_m1 Bz_m1
             (iz_lower s) (iz_upper s) (ir_lower s) (ir_upper s) S_ll S_lu S_lg S_ul S_uu S_ug
      in (Ex_i, Ey_i, Ez_i, cos_t * Fr - sin_t * Ft, sin_t * Fr + cos_t * Ft, Fz))"

text \<open>
  The body of the particle loop of \<^verbatim>\<open>gather_field_numba_cubic\<close> (lines 442--519). The
  scratch arrays \<^verbatim>\<open>Sr\<close> and \<^verbatim>\<open>Sz\<close> of a thread are allocated uninitialised and all four
  entries of each are assigned for every particle before the inline function reads
  them, so they are the two lists of factors of that particle.
\<close>

definition gather_cubic_for_particle ::
  "cubic_gather_for_mode \<Rightarrow> real \<Rightarrow> real \<Rightarrow> int \<Rightarrow> real \<Rightarrow> real \<Rightarrow> int \<Rightarrow>
   array2d \<Rightarrow> array2d \<Rightarrow> array2d \<Rightarrow> array2d \<Rightarrow> array2d \<Rightarrow> array2d \<Rightarrow>
   array2d \<Rightarrow> array2d \<Rightarrow> array2d \<Rightarrow> array2d \<Rightarrow> array2d \<Rightarrow> array2d \<Rightarrow>
   real \<Rightarrow> real \<Rightarrow> real \<Rightarrow> field_values" where
  "gather_cubic_for_particle add_cubic_gather_for_mode invdz zmin Nz invdr rmin Nr
       Er_m0 Et_m0 Ez_m0 Er_m1 Et_m1 Ez_m1 Br_m0 Bt_m0 Bz_m0 Br_m1 Bt_m1 Bz_m1 xj yj zj =
     (let (rj, cos_t, sin_t) = cylindrical_conversion xj yj;
          exptheta_m0 = 1;
          exptheta_m1 = complex_of_real cos_t - \<i> * complex_of_real sin_t;
          r_cell = invdr * (rj - rmin) - 0.5;
          z_cell = invdz * (zj - zmin) - 0.5;
          (ir_lowest, Sr) = cubic_weights r_cell;
          (iz_lowest, Sz) = cubic_weights z_cell;
          (Fr, Ft, Fz) = add_cubic_gather_for_mode 0 0 0 0 exptheta_m0 Er_m0 Et_m0 Ez_m0
             ir_lowest iz_lowest Sr Sz Nr Nz;
          (Fr, Ft, Fz) = add_cubic_gather_for_mode 1 Fr Ft Fz exptheta_m1 Er_m1 Et_m1 Ez_m1
             ir_lowest iz_lowest Sr Sz Nr Nz;
          Ex_i = cos_t * Fr - sin_t * Ft;
          Ey_i = sin_t * Fr + cos_t * Ft;
          Ez_i = Fz;
          (Fr, Ft, Fz) = add_cubic_gather_for_mode 0 0 0 0 exptheta_m0 Br_m0 Bt_m0 Bz_m0
             ir_lowest iz_lowest Sr Sz Nr Nz;
          (Fr, Ft, Fz) = add_cubic_gather_for_mode 1 Fr Ft Fz exptheta_m1 Br_m1 Bt_m1 Bz_m1
             ir_lowest iz_lowest Sr Sz Nr Nz
      in (Ex_i, Ey_i, Ez_i, cos_t * Fr - sin_t * Ft, sin_t * Fr + cos_t * Ft, Fz))"

text \<open>
  One iteration of a particle loop writes the six values of particle \<open>i\<close> into slot \<open>i\<close>
  of the six output arrays. The kernels are compiled without bounds checks: the model
  reads \<open>x ! i\<close>, \<open>y ! i\<close>, \<open>z ! i\<close> and updates slot \<open>i\<close>, and the theorems below assume
  that the index is inside every array it is used on, as the caller of the kernel
  guarantees (all arrays of a particle batch have the same length).
\<close>

definition write_particle_fields ::
  "(real \<Rightarrow> real \<Rightarrow> real \<Rightarrow> field_values) \<Rightarrow> real list \<Rightarrow> real list \<Rightarrow> real list \<Rightarrow>
   nat \<Rightarrow> field_outputs \<Rightarrow> field_outputs" where
  "write_particle_fields body x y z i =
     (\<lambda>(Ex', Ey, Ez, Bx, By, Bz).
        let (Ex_i, Ey_i, Ez_i, Bx_i, By_i, Bz_i) = body (x ! i) (y ! i) (z ! i)
        in (Ex'[i := Ex_i], Ey[i := Ey_i], Ez[i := Ez_i],
            Bx[i := Bx_i], By[i := By_i], Bz[i := Bz_i]))"

text \<open>
  \<^verbatim>\<open>gather_field_numba_linear\<close> (lines 31--198). The loop is a \<^verbatim>\<open>prange\<close> over
  \<^verbatim>\<open>x.shape[0]\<close>: its iterations run in an order chosen by the scheduler. The order is
  the argument \<open>sched\<close>, the list of the particle indices in the order in which their
  iterations run; the sequential order is \<open>[0..<length x]\<close>.
  The output array \<^verbatim>\<open>Ex\<close> is written \<open>Ex'\<close>, since \<open>Ex\<close> is a constant of HOL.
\<close>

definition gather_field_numba_linear ::
  "linear_gather_for_mode \<Rightarrow> nat list \<Rightarrow> real list \<Rightarrow> real list \<Rightarrow> real list \<Rightarrow>
   real \<Rightarrow> real \<Rightarrow> int \<Rightarrow> real \<Rightarrow> real \<Rightarrow> int \<Rightarrow>
   array2d \<Rightarrow> array2d \<Rightarrow> array2d \<Rightarrow> array2d \<Rightarrow> array2d \<Rightarrow> array2d \<Rightarrow>
   array2d \<Rightarrow> array2d \<Rightarrow> array2d \<Rightarrow> array2d \<Rightarrow> array2d \<Rightarrow> array2d \<Rightarrow>
   real list \<Rightarrow> real list \<Rightarrow> real list \<Rightarrow> real list \<Rightarrow> real list \<Rightarrow> real list \<Rightarrow>
   field_outputs" where
  "gather_field_numba_linear add_linear_gather_for_mode sched x y z
       invdz zmin Nz invdr rmin Nr
       Er_m0 Et_m0 Ez_m0 Er_m1 Et_m1 Ez_m1 Br_m0 Bt_m0 Bz_m0 Br_m1 Bt_m1 Bz_m1
       Ex' Ey Ez Bx By Bz =
     fold (write_particle_fields
             (gather_linear_for_particle add_linear_gather_for_mode invdz zmin Nz invdr rmin Nr
                Er_m0 Et_m0 Ez_m0 Er_m1 Et_m1 Ez_m1 Br_m0 Bt_m0 Bz_m0 Br_m1 Bt_m1 Bz_m1)
             x y z)
          sched (Ex', Ey, Ez, Bx, By, Bz)"

text \<open>
  \<^verbatim>\<open>gather_field_numba_cubic\<close> (lines 370--521). The outer loop is a \<^verbatim>\<open>prange\<close> over the
  threads, and thread \<open>nt\<close> loops over the particles from \<^verbatim>\<open>ptcl_chunk_indices[nt]\<close> up
  to \<^verbatim>\<open>ptcl_chunk_indices[nt+1]\<close>. The argument \<open>threads\<close> lists the iterations \<open>nt\<close> of
  \<^verbatim>\<open>prange(nthreads)\<close> in the order in which they run (sequentially \<open>[0..<nthreads]\<close>);
  the chunk indices are natural numbers.
\<close>

definition chunk_schedule :: "nat list \<Rightarrow> nat list \<Rightarrow> nat list" where
  "chunk_schedule threads ptcl_chunk_indices =
     concat (map (\<lambda>nt. [ptcl_chunk_indices ! nt ..< ptcl_chunk_indices ! (nt + 1)]) threads)"

definition gather_field_numba_cubic ::
  "cubic_gather_for_mode \<Rightarrow> nat list \<Rightarrow> real list \<Rightarrow> real list \<Rightarrow> real list \<Rightarrow>
   real \<Rightarrow> real \<Rightarrow> int \<Rightarrow> real \<Rightarrow> real \<Rightarrow> int \<Rightarrow>
   array2d \<Rightarrow> array2d \<Rightarrow> array2d \<Rightarrow> array2d \<Rightarrow> array2d \<Rightarrow> array2d \<Rightarrow>
   array2d \<Rightarrow> array2d \<Rightarrow> array2d \<Rightarrow> array2d \<Rightarrow> array2d \<Rightarrow> array2d \<Rightarrow>
   real list \<Rightarrow> real list \<Rightarrow> real list \<Rightarrow> real list \<Rightarrow> real list \<Rightarrow> real list \<Rightarrow>
   nat list \<Rightarrow> field_outputs" where
  "gather_field_numba_cubic add_cubic_gather_for_mode threads x y z
       invdz zmin Nz invdr rmin Nr
       Er_m0 Et_m0 Ez_m0 Er_m1 Et_m1 Ez_m1 Br_m0 Bt_m0 Bz_m0 Br_m1 Bt_m1 Bz_m1
       Ex' Ey Ez Bx By Bz ptcl_chunk_indices =
     fold (write_particle_fields
             (gather_cubic_for_particle add_cubic_gather_for_mode invdz zmin Nz invdr rmin Nr
                Er_m0 Et_m0 Ez_m0 Er_m1 Et_m1 Ez_m1 Br_m0 Bt_m0 Bz_m0 Br_m1 Bt_m1 Bz_m1)
             x y z)
          (chunk_schedule threads ptcl_chunk_indices) (Ex', Ey, Ez, Bx, By, Bz)"

text \<open>
  For the statements about the output arrays: the six values held at one index, the
  lengths of the six arrays, and whether an index is inside all six.
\<close>

definition fields_at :: "field_outputs \<Rightarrow> nat \<Rightarrow> field_values" where
  "fields_at outs i =
     (case outs of (Ex', Ey, Ez, Bx, By, Bz) \<Rightarrow>
        (Ex' ! i, Ey ! i, Ez ! i, Bx ! i, By ! i, Bz ! i))"

definition output_lengths :: "field_outputs \<Rightarrow> nat list" where
  "output_lengths outs =
     (case outs of (Ex', Ey, Ez, Bx, By, Bz) \<Rightarrow>
        [length Ex', length Ey, length Ez, length Bx, length By, length Bz])"

definition inside_outputs :: "field_outputs \<Rightarrow> nat \<Rightarrow> bool" where
  "inside_outputs outs i =
     (case outs of (Ex', Ey, Ez, Bx, By, Bz) \<Rightarrow>
        i < length Ex' \<and> i < length Ey \<and> i < length Ez \<and>
        i < length Bx \<and> i < length By \<and> i < length Bz)"

section \<open>The envelope-gathering kernels\<close>

text \<open>
  Indexing a Python tuple: a negative index counts from the end, and an index outside the
  tuple raises \<^verbatim>\<open>IndexError\<close>.
\<close>

definition tuple_item :: "'a list \<Rightarrow> int \<Rightarrow> error + 'a" where
  "tuple_item xs k =
     (let n = int (length xs);
          j = (if k < 0 then n + k else k)
      in if 0 \<le> j \<and> j < n then Inr (xs ! nat j) else Inl IndexError)"

text \<open>A loop whose body may raise: the first exception ends the loop.\<close>

fun fold_error :: "('a \<Rightarrow> 'b \<Rightarrow> error + 'b) \<Rightarrow> 'a list \<Rightarrow> 'b \<Rightarrow> error + 'b" where
  "fold_error f [] acc = Inr acc"
| "fold_error f (v # vs) acc =
     (case f v acc of Inl e \<Rightarrow> Inl e | Inr acc' \<Rightarrow> fold_error f vs acc')"

text \<open>
  The sums \<^verbatim>\<open>F\<close>, \<^verbatim>\<open>Fr\<close>, \<^verbatim>\<open>Ft\<close>, \<^verbatim>\<open>Fz\<close>, \<^verbatim>\<open>dtF\<close> of one particle, the five values written for
  it, and the five output arrays \<^verbatim>\<open>a2\<close>, \<^verbatim>\<open>grad_a2_x\<close>, \<^verbatim>\<open>grad_a2_y\<close>, \<^verbatim>\<open>grad_a2_z\<close>,
  \<^verbatim>\<open>a2_delayed\<close>.
\<close>

type_synonym envelope_sums = "complex \<times> complex \<times> complex \<times> complex \<times> complex"

type_synonym envelope_values = "real \<times> real \<times> real \<times> real \<times> real"

type_synonym envelope_outputs = "real list \<times> real list \<times> real list \<times> real list \<times> real list"

type_synonym mode_grids = "array2d \<times> array2d \<times> array2d \<times> array2d \<times> array2d"

type_synonym linear_envelope_gather_for_mode =
  "int \<Rightarrow> complex \<Rightarrow> complex \<Rightarrow> complex \<Rightarrow> complex \<Rightarrow> complex \<Rightarrow> complex \<Rightarrow>
   array2d \<Rightarrow> array2d \<Rightarrow> array2d \<Rightarrow> array2d \<Rightarrow> array2d \<Rightarrow>
   int \<Rightarrow> int \<Rightarrow> int \<Rightarrow> int \<Rightarrow> real \<Rightarrow> real \<Rightarrow> real \<Rightarrow> real \<Rightarrow> real \<Rightarrow> real \<Rightarrow>
   envelope_sums"

type_synonym cubic_envelope_gather_for_mode =
  "int \<Rightarrow> complex \<Rightarrow> complex \<Rightarrow> complex \<Rightarrow> complex \<Rightarrow> complex \<Rightarrow> complex \<Rightarrow>
   array2d \<Rightarrow> array2d \<Rightarrow> array2d \<Rightarrow> array2d \<Rightarrow> array2d \<Rightarrow>
   int \<Rightarrow> int \<Rightarrow> real list \<Rightarrow> real list \<Rightarrow> int \<Rightarrow> int \<Rightarrow>
   envelope_sums"

text \<open>
  The five grid arrays of one mode, read at the same index of the five tuples, in the
  order in which the kernels read them (lines 323--327 and 628--632).
\<close>

definition mode_arrays ::
  "array2d list \<Rightarrow> array2d list \<Rightarrow> array2d list \<Rightarrow> array2d list \<Rightarrow> array2d list \<Rightarrow>
   int \<Rightarrow> error + mode_grids" where
  "mode_arrays a_tuple grad_a_r_tuple grad_a_t_tuple grad_a_z_tuple dta_tuple k =
     (case tuple_item a_tuple k of Inl e \<Rightarrow> Inl e | Inr a_m \<Rightarrow>
      case tuple_item grad_a_r_tuple k of Inl e \<Rightarrow> Inl e | Inr grad_a_r_m \<Rightarrow>
      case tuple_item grad_a_t_tuple k of Inl e \<Rightarrow> Inl e | Inr grad_a_t_m \<Rightarrow>
      case tuple_item grad_a_z_tuple k of Inl e \<Rightarrow> Inl e | Inr grad_a_z_m \<Rightarrow>
      case tuple_item dta_tuple k of Inl e \<Rightarrow> Inl e | Inr dta_m \<Rightarrow>
        Inr (a_m, grad_a_r_m, grad_a_t_m, grad_a_z_m, dta_m))"

text \<open>
  The body of the mode loop of the linear kernel (lines 321--334), for the position \<open>it\<close>
  of \<^verbatim>\<open>range(len(m_tuple))\<close>: the mode is \<^verbatim>\<open>m_tuple[it]\<close> and the arrays are those at
  position \<open>it\<close> of the tuples. The phase \<^verbatim>\<open>(cos - 1.j*sin)**m\<close> is an integer power of
  a complex number of modulus 1.
\<close>

definition linear_envelope_mode ::
  "linear_envelope_gather_for_mode \<Rightarrow>
   array2d list \<Rightarrow> array2d list \<Rightarrow> array2d list \<Rightarrow> array2d list \<Rightarrow> array2d list \<Rightarrow>
   int list \<Rightarrow> real \<Rightarrow> real \<Rightarrow> linear_stencil \<Rightarrow> nat \<Rightarrow> envelope_sums \<Rightarrow>
   error + envelope_sums" where
  "linear_envelope_mode add_linear_envelope_gather_for_mode
       a_tuple grad_a_r_tuple grad_a_t_tuple grad_a_z_tuple dta_tuple m_tuple
       cos_t sin_t s it =
     (\<lambda>(F, Fr, Ft, Fz, dtF).
        case tuple_item m_tuple (int it) of Inl e \<Rightarrow> Inl e | Inr m \<Rightarrow>
        case mode_arrays a_tuple grad_a_r_tuple grad_a_t_tuple grad_a_z_tuple dta_tuple (int it)
        of Inl e \<Rightarrow> Inl e
         | Inr (a_m, grad_a_r_m, grad_a_t_m, grad_a_z_m, dta_m) \<Rightarrow>
            let exptheta_m = (complex_of_real cos_t - \<i> * complex_of_real sin_t) powi m
            in Inr (add_linear_envelope_gather_for_mode m F Fr Ft Fz dtF exptheta_m
                      a_m grad_a_r_m grad_a_t_m grad_a_z_m dta_m
                      (iz_lower s) (iz_upper s) (ir_lower s) (ir_upper s)
                      (Sz_lower s * Sr_lower s) (Sz_lower s * Sr_upper s)
                      (Sz_lower s * Sr_guard s) (Sz_upper s * Sr_lower s)
                      (Sz_upper s * Sr_upper s) (Sz_upper s * Sr_guard s)))"

text \<open>
  The body of the mode loop of the cubic kernel (lines 626--637), for the element \<open>m\<close> of
  \<^verbatim>\<open>m_tuple\<close>: the arrays are those at index \<open>m\<close> of the tuples.
\<close>

definition cubic_envelope_mode ::
  "cubic_envelope_gather_for_mode \<Rightarrow>
   array2d list \<Rightarrow> array2d list \<Rightarrow> array2d list \<Rightarrow> array2d list \<Rightarrow> array2d list \<Rightarrow>
   real \<Rightarrow> real \<Rightarrow> int \<Rightarrow> int \<Rightarrow> real list \<Rightarrow> real list \<Rightarrow> int \<Rightarrow> int \<Rightarrow>
   int \<Rightarrow> envelope_sums \<Rightarrow> error + envelope_sums" where
  "cubic_envelope_mode add_cubic_envelope_gather_for_mode
       a_tuple grad_a_r_tuple grad_a_t_tuple grad_a_z_tuple dta_tuple
       cos_t sin_t ir_lowest iz_lowest Sr Sz Nr Nz m =
     (\<lambda>(F, Fr, Ft, Fz, dtF).
        case mode_arrays a_tuple grad_a_r_tuple grad_a_t_tuple grad_a_z_tuple dta_tuple m
        of Inl e \<Rightarrow> Inl e
         | Inr (a_m, grad_a_r_m, grad_a_t_m, grad_a_z_m, dta_m) \<Rightarrow>
            let exptheta_m = (complex_of_real cos_t - \<i> * complex_of_real sin_t) powi m
            in Inr (add_cubic_envelope_gather_for_mode m F Fr Ft Fz dtF exptheta_m
                      a_m grad_a_r_m grad_a_t_m grad_a_z_m dta_m
                      ir_lowest iz_lowest Sr Sz Nr Nz))"

text \<open>
  Lines 336--362 (and, with the same text, 639--665): from the sums of a particle to the
  five values stored for it. \<open>old\<close> holds the five values stored before. The products
  \<^verbatim>\<open>Fx\<close>, \<^verbatim>\<open>Fy\<close>, \<^verbatim>\<open>Fz\<close> are floats after the conversion to \<^verbatim>\<open>grad_a^2\<close>, and the real
  part of a float is the float.
\<close>

definition register_envelope ::
  "bool \<Rightarrow> real \<Rightarrow> real \<Rightarrow> real \<Rightarrow> envelope_sums \<Rightarrow> envelope_values \<Rightarrow> envelope_values" where
  "register_envelope averaging dt cos_t sin_t acc old =
     (case acc of (F, Fr, Ft, Fz, dtF) \<Rightarrow>
      case old of (a2_i, grad_a2_x_i, grad_a2_y_i, grad_a2_z_i, a2_delayed_i) \<Rightarrow>
        let Fx = complex_of_real cos_t * Fr - complex_of_real sin_t * Ft;
            Fy = complex_of_real sin_t * Fr + complex_of_real cos_t * Ft;
            dtF = 0.5 * complex_of_real dt * dtF + F;
            Fx = 2 * Re (Fx * cnj F);
            Fy = 2 * Re (Fy * cnj F);
            Fz = 2 * Re (Fz * cnj F);
            F = F * cnj F;
            dtF = dtF * cnj dtF
        in if averaging
           then (Re (0.5 * (complex_of_real a2_i + F)),
                 0.5 * (grad_a2_x_i + Fx),
                 0.5 * (grad_a2_y_i + Fy),
                 0.5 * (grad_a2_z_i + Fz),
                 Re (0.5 * (complex_of_real a2_delayed_i + F)))
           else (Re F, Fx, Fy, Fz, Re dtF))"

text \<open>The body of the particle loop of each envelope kernel (lines 248--362, 582--665).\<close>

definition gather_envelope_linear_for_particle ::
  "linear_envelope_gather_for_mode \<Rightarrow> real \<Rightarrow> real \<Rightarrow> int \<Rightarrow> real \<Rightarrow> real \<Rightarrow> int \<Rightarrow> real \<Rightarrow>
   array2d list \<Rightarrow> array2d list \<Rightarrow> array2d list \<Rightarrow> array2d list \<Rightarrow> array2d list \<Rightarrow>
   int list \<Rightarrow> bool \<Rightarrow> real \<Rightarrow> real \<Rightarrow> real \<Rightarrow> envelope_values \<Rightarrow> error + envelope_values" where
  "gather_envelope_linear_for_particle add_linear_envelope_gather_for_mode
       invdz zmin Nz invdr rmin Nr dt
       a_tuple grad_a_r_tuple grad_a_t_tuple grad_a_z_tuple dta_tuple m_tuple averaging
       xj yj zj old =
     (let (rj, cos_t, sin_t) = cylindrical_conversion xj yj;
          s = linear_shape invdz zmin Nz invdr rmin Nr rj zj
      in case fold_error
                (linear_envelope_mode add_linear_envelope_gather_for_mode
                   a_tuple grad_a_r_tuple grad_a_t_tuple grad_a_z_tuple dta_tuple m_tuple
                   cos_t sin_t s)
                [0..<length m_tuple] (0, 0, 0, 0, 0)
         of Inl e \<Rightarrow> Inl e
          | Inr acc \<Rightarrow> Inr (register_envelope averaging dt cos_t sin_t acc old))"

definition gather_envelope_cubic_for_particle ::
  "cubic_envelope_gather_for_mode \<Rightarrow> real \<Rightarrow> real \<Rightarrow> int \<Rightarrow> real \<Rightarrow> real \<Rightarrow> int \<Rightarrow> real \<Rightarrow>
   array2d list \<Rightarrow> array2d list \<Rightarrow> array2d list \<Rightarrow> array2d list \<Rightarrow> array2d list \<Rightarrow>
   int list \<Rightarrow> bool \<Rightarrow> real \<Rightarrow> real \<Rightarrow> real \<Rightarrow> envelope_values \<Rightarrow> error + envelope_values" where
  "gather_envelope_cubic_for_particle add_cubic_envelope_gather_for_mode
       invdz zmin Nz invdr rmin Nr dt
       a_tuple grad_a_r_tuple grad_a_t_tuple grad_a_z_tuple dta_tuple m_tuple averaging
       xj yj zj old =
     (let (rj, cos_t, sin_t) = cylindrical_conversion xj yj;
          r_cell = invdr * (rj - rmin) - 0.5;
          z_cell = invdz * (zj - zmin) - 0.5;
          (ir_lowest, Sr) = cubic_weights r_cell;
          (iz_lowest, Sz) = cubic_weights z_cell
      in case fold_error
                (cubic_envelope_mode add_cubic_envelope_gather_for_mode
                   a_tuple grad_a_r_tuple grad_a_t_tuple grad_a_z_tuple dta_tuple
                   cos_t sin_t ir_lowest iz_lowest Sr Sz Nr Nz)
                m_tuple (0, 0, 0, 0, 0)
         of Inl e \<Rightarrow> Inl e
          | Inr acc \<Rightarrow> Inr (register_envelope averaging dt cos_t sin_t acc old))"

text \<open>
  The particle loop of an envelope kernel. An exception raised for a particle leaves the
  output arrays as the earlier iterations wrote them.
\<close>

fun envelope_particle_loop ::
  "(nat \<Rightarrow> envelope_values \<Rightarrow> error + envelope_values) \<Rightarrow> nat list \<Rightarrow> envelope_outputs \<Rightarrow>
   (error + unit) \<times> envelope_outputs" where
  "envelope_particle_loop body [] outs = (Inr (), outs)"
| "envelope_particle_loop body (i # rest) (a2, grad_a2_x, grad_a2_y, grad_a2_z, a2_delayed) =
     (case body i (a2 ! i, grad_a2_x ! i, grad_a2_y ! i, grad_a2_z ! i, a2_delayed ! i) of
        Inl e \<Rightarrow> (Inl e, (a2, grad_a2_x, grad_a2_y, grad_a2_z, a2_delayed))
      | Inr (a2_i, grad_a2_x_i, grad_a2_y_i, grad_a2_z_i, a2_delayed_i) \<Rightarrow>
          envelope_particle_loop body rest
            (a2[i := a2_i], grad_a2_x[i := grad_a2_x_i], grad_a2_y[i := grad_a2_y_i],
             grad_a2_z[i := grad_a2_z_i], a2_delayed[i := a2_delayed_i]))"

text \<open>
  \<^verbatim>\<open>gather_envelope_field_numba_linear\<close> (lines 201--362), a sequential loop over the
  particles, and \<^verbatim>\<open>gather_envelope_field_numba_cubic\<close> (lines 525--665), compiled
  without the parallel option, a sequential loop over the threads and the particles of
  their chunks.
\<close>

definition gather_envelope_field_numba_linear ::
  "linear_envelope_gather_for_mode \<Rightarrow> real list \<Rightarrow> real list \<Rightarrow> real list \<Rightarrow>
   real \<Rightarrow> real \<Rightarrow> int \<Rightarrow> real \<Rightarrow> real \<Rightarrow> int \<Rightarrow> real \<Rightarrow>
   array2d list \<Rightarrow> array2d list \<Rightarrow> array2d list \<Rightarrow> array2d list \<Rightarrow> array2d list \<Rightarrow>
   int list \<Rightarrow> real list \<Rightarrow> real list \<Rightarrow> real list \<Rightarrow> real list \<Rightarrow> real list \<Rightarrow> bool \<Rightarrow>
   (error + unit) \<times> envelope_outputs" where
  "gather_envelope_field_numba_linear add_linear_envelope_gather_for_mode x y z
       invdz zmin Nz invdr rmin Nr dt
       a_tuple grad_a_r_tuple grad_a_t_tuple grad_a_z_tuple dta_tuple m_tuple
       a2 grad_a2_x grad_a2_y grad_a2_z a2_delayed averaging =
     envelope_particle_loop
       (\<lambda>i. gather_envelope_linear_for_particle add_linear_envelope_gather_for_mode
               invdz zmin Nz invdr rmin Nr dt
               a_tuple grad_a_r_tuple grad_a_t_tuple grad_a_z_tuple dta_tuple m_tuple averaging
               (x ! i) (y ! i) (z ! i))
       [0..<length x] (a2, grad_a2_x, grad_a2_y, grad_a2_z, a2_delayed)"

definition gather_envelope_field_numba_cubic ::
  "cubic_envelope_gather_for_mode \<Rightarrow> real list \<Rightarrow> real list \<Rightarrow> real list \<Rightarrow>
   real \<Rightarrow> real \<Rightarrow> int \<Rightarrow> real \<Rightarrow> real \<Rightarrow> int \<Rightarrow> real \<Rightarrow>
   array2d list \<Rightarrow> array2d list \<Rightarrow> array2d list \<Rightarrow> array2d list \<Rightarrow> array2d list \<Rightarrow>
   int list \<Rightarrow> real list \<Rightarrow> real list \<Rightarrow> real list \<Rightarrow> real list \<Rightarrow> real list \<Rightarrow>
   nat \<Rightarrow> nat list \<Rightarrow> bool \<Rightarrow> (error + unit) \<times> envelope_outputs" where
  "gather_envelope_field_numba_cubic add_cubic_envelope_gather_for_mode x y z
       invdz zmin Nz invdr rmin Nr dt
       a_tuple grad_a_r_tuple grad_a_t_tuple grad_a_z_tuple dta_tuple m_tuple
       a2 grad_a2_x grad_a2_y grad_a2_z a2_delayed nthreads ptcl_chunk_indices averaging =
     envelope_particle_loop
       (\<lambda>i. gather_envelope_cubic_for_particle add_cubic_envelope_gather_for_mode
               invdz zmin Nz invdr rmin Nr dt
               a_tuple grad_a_r_tuple grad_a_t_tuple grad_a_z_tuple dta_tuple m_tuple averaging
               (x ! i) (y ! i) (z ! i))
       (chunk_schedule [0..<nthreads] ptcl_chunk_indices)
       (a2, grad_a2_x, grad_a2_y, grad_a2_z, a2_delayed)"

section \<open>The inline gathering functions of the field kernels\<close>

text \<open>
  Modelled from the spec: the inline functions \<^verbatim>\<open>add_linear_gather_for_mode\<close> and
  \<^verbatim>\<open>add_cubic_gather_for_mode\<close> of \<^verbatim>\<open>fbpic/particles/gathering/inline_functions.py\<close>,
  which the field kernels call and which is not part of the sources followed here. The
  spec (4.3, steps 4 and 6): ``interpolate the mode's complex (Er, Et, Ez) and
  (Br, Bt, Bz) at the support points, multiply by the phase factor, accumulate into
  complex sums (Fr, Ft, Fz)'' and ``write the real part of each component''; the real
  part of a sum is the sum of the real parts, so the real sums of the kernel accumulate
  the real part of each mode's term. The spec (4.2): in the linear order a radial index
  below 0 has its ``weight redirected to a separate guard bucket'', with the ``index
  clamped to 0''; a radial index above \<open>Nr - 1\<close> is ``clamped to \<open>Nr - 1\<close>'', and a
  longitudinal index outside \<open>[0, Nz - 1]\<close> is wrapped by \<open>Nz\<close>, up or down. What is done
  with the guard bucket the spec leaves open (9: ``a mode-dependent parity fold-back
  that this kernel computes but does not itself apply -- the exact fold-back rule must
  be cross-checked''), and it gives no rule for a radial index below 0 in the cubic
  order. Both are parameters of the model: \<open>fold_back m\<close> gives the three factors with
  which the guard bucket of mode \<open>m\<close> enters the sums \<open>Fr\<close>, \<open>Ft\<close>, \<open>Fz\<close> (all 0 when it is
  not applied), and \<open>below_axis m ir\<close> gives the index read and the factor applied for a
  radial index \<open>ir < 0\<close> of the cubic stencil.

  \<^verbatim>\<open>F[iz, ir]\<close> on a numpy array counts a negative index from the end. The index
  arguments carry a prime, their names being fields of the stencil record.
\<close>

definition array_item :: "array2d \<Rightarrow> int \<Rightarrow> int \<Rightarrow> complex" where
  "array_item F iz ir =
     (let row = F ! nat (if iz < 0 then int (length F) + iz else iz)
      in row ! nat (if ir < 0 then int (length row) + ir else ir))"

definition linear_interpolation ::
  "real \<Rightarrow> array2d \<Rightarrow> int \<Rightarrow> int \<Rightarrow> int \<Rightarrow> int \<Rightarrow>
   real \<Rightarrow> real \<Rightarrow> real \<Rightarrow> real \<Rightarrow> real \<Rightarrow> real \<Rightarrow> complex" where
  "linear_interpolation guard_factor F iz_lower' iz_upper' ir_lower' ir_upper'
       S_ll S_lu S_lg S_ul S_uu S_ug =
     complex_of_real S_ll * array_item F iz_lower' ir_lower'
     + complex_of_real S_lu * array_item F iz_lower' ir_upper'
     + complex_of_real S_ul * array_item F iz_upper' ir_lower'
     + complex_of_real S_uu * array_item F iz_upper' ir_upper'
     + complex_of_real guard_factor *
         (complex_of_real S_lg * array_item F iz_lower' 0
          + complex_of_real S_ug * array_item F iz_upper' 0)"

definition add_linear_gather_for_mode ::
  "(int \<Rightarrow> real \<times> real \<times> real) \<Rightarrow> linear_gather_for_mode" where
  "add_linear_gather_for_mode fold_back m Fr Ft Fz exptheta_m Fr_grid Ft_grid Fz_grid
       iz_lower' iz_upper' ir_lower' ir_upper' S_ll S_lu S_lg S_ul S_uu S_ug =
     (case fold_back m of (fold_r, fold_t, fold_z) \<Rightarrow>
        (Fr + Re (linear_interpolation fold_r Fr_grid iz_lower' iz_upper' ir_lower' ir_upper'
                    S_ll S_lu S_lg S_ul S_uu S_ug * exptheta_m),
         Ft + Re (linear_interpolation fold_t Ft_grid iz_lower' iz_upper' ir_lower' ir_upper'
                    S_ll S_lu S_lg S_ul S_uu S_ug * exptheta_m),
         Fz + Re (linear_interpolation fold_z Fz_grid iz_lower' iz_upper' ir_lower' ir_upper'
                    S_ll S_lu S_lg S_ul S_uu S_ug * exptheta_m)))"

definition cubic_radial_index :: "(int \<Rightarrow> int \<times> real) \<Rightarrow> int \<Rightarrow> int \<Rightarrow> int \<times> real" where
  "cubic_radial_index below Nr ir =
     (if ir < 0 then below ir else if ir > Nr - 1 then (Nr - 1, 1) else (ir, 1))"

definition cubic_longitudinal_index :: "int \<Rightarrow> int \<Rightarrow> int" where
  "cubic_longitudinal_index Nz iz =
     (if iz < 0 then iz + Nz else if iz > Nz - 1 then iz - Nz else iz)"

definition cubic_interpolation ::
  "(int \<Rightarrow> int \<times> real) \<Rightarrow> array2d \<Rightarrow> int \<Rightarrow> int \<Rightarrow> real list \<Rightarrow> real list \<Rightarrow>
   int \<Rightarrow> int \<Rightarrow> complex" where
  "cubic_interpolation below F ir_lowest iz_lowest Sr Sz Nr Nz =
     (\<Sum>index_r\<leftarrow>[0, 1, 2, 3]. \<Sum>index_z\<leftarrow>[0, 1, 2, 3].
        case cubic_radial_index below Nr (ir_lowest + int index_r) of (ir, factor) \<Rightarrow>
          complex_of_real (factor * (Sr ! index_r) * (Sz ! index_z))
          * array_item F (cubic_longitudinal_index Nz (iz_lowest + int index_z)) ir)"

definition add_cubic_gather_for_mode ::
  "(int \<Rightarrow> int \<Rightarrow> int \<times> real) \<Rightarrow> cubic_gather_for_mode" where
  "add_cubic_gather_for_mode below_axis m Fr Ft Fz exptheta_m Fr_grid Ft_grid Fz_grid
       ir_lowest iz_lowest Sr Sz Nr Nz =
     (Fr + Re (cubic_interpolation (below_axis m) Fr_grid ir_lowest iz_lowest Sr Sz Nr Nz
                 * exptheta_m),
      Ft + Re (cubic_interpolation (below_axis m) Ft_grid ir_lowest iz_lowest Sr Sz Nr Nz
                 * exptheta_m),
      Fz + Re (cubic_interpolation (below_axis m) Fz_grid ir_lowest iz_lowest Sr Sz Nr Nz
                 * exptheta_m))"

text \<open>A grid array of shape \<open>(Nz, Nr)\<close> whose entries all equal \<open>c\<close>.\<close>

definition uniform_array :: "int \<Rightarrow> int \<Rightarrow> complex \<Rightarrow> array2d" where
  "uniform_array Nz Nr c = replicate (nat Nz) (replicate (nat Nr) c)"

section \<open>The interpolation grids\<close>

text \<open>
  \<^verbatim>\<open>class InterpolationGrid\<close> (lines 19--89 of \<^verbatim>\<open>interpolation_grid.py\<close>): the attributes
  in the order in which \<^verbatim>\<open>__init__\<close> assigns them. The attribute \<^verbatim>\<open>d_invvol\<close> exists only
  when the grid was built with \<^verbatim>\<open>use_cuda\<close>. The fields of the records are constants from
  here on, so the arguments of the constructors carry a prime.
\<close>

record InterpolationGrid =
  Nz :: int
  Nr :: int
  m :: int
  dr :: real
  dz :: real
  invdr :: real
  invdz :: real
  rmin :: real
  rmax :: real
  zmin :: real
  zmax :: real
  invvol :: "real list"
  use_cuda :: bool
  d_invvol :: "real list option"

text \<open>
  The division of two Python numbers raises \<^verbatim>\<open>ZeroDivisionError\<close> on a zero divisor.
  The division \<^verbatim>\<open>1./vol\<close> of the constructor is a numpy division of an array, which does
  not raise; no entry of \<^verbatim>\<open>vol\<close> is zero when the constructor reaches it (lemma
  \<open>cell_volume_nonzero\<close> below).
\<close>

definition float_div :: "real \<Rightarrow> real \<Rightarrow> error + real" where
  "float_div u v = (if v = 0 then Inl ZeroDivisionError else Inr (u / v))"

definition cell_volume :: "real \<Rightarrow> real \<Rightarrow> real \<Rightarrow> real" where
  "cell_volume dz' dr' rj = pi * dz' * ((rj + 0.5 * dr')\<^sup>2 - (rj - 0.5 * dr')\<^sup>2)"

definition InterpolationGrid_init ::
  "int \<Rightarrow> int \<Rightarrow> int \<Rightarrow> real \<Rightarrow> real \<Rightarrow> real \<Rightarrow> bool \<Rightarrow> error + InterpolationGrid" where
  "InterpolationGrid_init Nz' Nr' m' zmin' zmax' rmax' use_cuda' =
     (case float_div rmax' (of_int Nr') of Inl e \<Rightarrow> Inl e | Inr dr' \<Rightarrow>
      case float_div (zmax' - zmin') (of_int Nz') of Inl e \<Rightarrow> Inl e | Inr dz' \<Rightarrow>
      case float_div 1 dr' of Inl e \<Rightarrow> Inl e | Inr invdr' \<Rightarrow>
      case float_div 1 dz' of Inl e \<Rightarrow> Inl e | Inr invdz' \<Rightarrow>
        let r' = map (\<lambda>j. (0.5 + of_nat j) * dr') [0..<nat Nr'];
            vol = map (cell_volume dz' dr') r';
            invvol' = map (\<lambda>v. 1 / v) vol
        in Inr \<lparr>Nz = Nz', Nr = Nr', m = m', dr = dr', dz = dz',
                invdr = invdr', invdz = invdz', rmin = 0, rmax = rmax',
                zmin = zmin', zmax = zmax', invvol = invvol',
                use_cuda = use_cuda',
                d_invvol = (if use_cuda' then Some invvol' else None)\<rparr>)"

text \<open>The properties \<^verbatim>\<open>z\<close> and \<^verbatim>\<open>r\<close> (lines 81--89): the positions of the cell centres.\<close>

definition z :: "'a InterpolationGrid_scheme \<Rightarrow> real list" where
  "z g = map (\<lambda>i. zmin g + (0.5 + of_nat i) * dz g) [0..<nat (Nz g)]"

definition r :: "'a InterpolationGrid_scheme \<Rightarrow> real list" where
  "r g = map (\<lambda>j. rmin g + (0.5 + of_nat j) * dr g) [0..<nat (Nr g)]"

text \<open>
  \<^verbatim>\<open>class FieldInterpolationGrid\<close> (lines 95--245) and \<^verbatim>\<open>class EnvelopeInterpolationGrid\<close>
  (lines 249--364) inherit from \<^verbatim>\<open>InterpolationGrid\<close> and add their field arrays.
  \<^verbatim>\<open>np.zeros\<close> raises \<^verbatim>\<open>ValueError\<close> on a negative dimension.
\<close>

record FieldInterpolationGrid = InterpolationGrid +
  Er :: array2d
  Et :: array2d
  Ez :: array2d
  Br :: array2d
  Bt :: array2d
  Bz :: array2d
  Jr :: array2d
  Jt :: array2d
  Jz :: array2d
  rho :: array2d

record EnvelopeInterpolationGrid = InterpolationGrid +
  a :: array2d
  dta :: array2d
  grad_a_r :: array2d
  grad_a_t :: array2d
  grad_a_z :: array2d
  chi :: array2d
  chi_a :: array2d

definition np_zeros :: "int \<Rightarrow> int \<Rightarrow> error + array2d" where
  "np_zeros n k =
     (if n < 0 \<or> k < 0 then Inl (ValueError ''negative dimensions are not allowed'')
      else Inr (replicate (nat n) (replicate (nat k) 0)))"

definition FieldInterpolationGrid_init ::
  "int \<Rightarrow> int \<Rightarrow> int \<Rightarrow> real \<Rightarrow> real \<Rightarrow> real \<Rightarrow> bool \<Rightarrow> error + FieldInterpolationGrid" where
  "FieldInterpolationGrid_init Nz' Nr' m' zmin' zmax' rmax' use_cuda' =
     (case InterpolationGrid_init Nz' Nr' m' zmin' zmax' rmax' use_cuda' of
        Inl e \<Rightarrow> Inl e
      | Inr g \<Rightarrow>
         (case np_zeros Nz' Nr' of
            Inl e \<Rightarrow> Inl e
          | Inr zeros \<Rightarrow>
              Inr (InterpolationGrid.extend g
                     (FieldInterpolationGrid.fields zeros zeros zeros zeros zeros zeros
                        zeros zeros zeros zeros))))"

definition EnvelopeInterpolationGrid_init ::
  "int \<Rightarrow> int \<Rightarrow> int \<Rightarrow> real \<Rightarrow> real \<Rightarrow> real \<Rightarrow> bool \<Rightarrow> error + EnvelopeInterpolationGrid" where
  "EnvelopeInterpolationGrid_init Nz' Nr' m' zmin' zmax' rmax' use_cuda' =
     (case InterpolationGrid_init Nz' Nr' m' zmin' zmax' rmax' use_cuda' of
        Inl e \<Rightarrow> Inl e
      | Inr g \<Rightarrow>
         (case np_zeros Nz' Nr' of
            Inl e \<Rightarrow> Inl e
          | Inr zeros \<Rightarrow>
              Inr (InterpolationGrid.extend g
                     (EnvelopeInterpolationGrid.fields zeros zeros zeros zeros zeros
                        zeros zeros))))"

text \<open>
  The array operations of the CPU branches: \<^verbatim>\<open>F[:,:] = 0.\<close> and
  \<^verbatim>\<open>F *= w[np.newaxis,:]\<close>, the product of every row of \<open>F\<close> with the vector \<open>w\<close>, entry
  by entry (the rows of a grid array and \<^verbatim>\<open>invvol\<close> have the same length \<open>Nr\<close>).
\<close>

definition set_to_zero :: "array2d \<Rightarrow> array2d" where
  "set_to_zero F = map (map (\<lambda>v. 0)) F"

definition times_row_vector :: "array2d \<Rightarrow> real list \<Rightarrow> array2d" where
  "times_row_vector F w = map (\<lambda>row. map2 (\<lambda>v c. v * complex_of_real c) row w) F"

text \<open>
  Modelled from the spec: the GPU kernels \<^verbatim>\<open>cuda_erase_scalar\<close>, \<^verbatim>\<open>cuda_erase_vector\<close>,
  \<^verbatim>\<open>cuda_divide_scalar_by_volume\<close> and \<^verbatim>\<open>cuda_divide_vector_by_volume\<close> of
  \<^verbatim>\<open>fbpic/fields/cuda_methods.py\<close>, which is not part of the sources followed here. The
  spec gives erase and the division by the volume one meaning for both backends
  (``sets every entry of the named field group to zero'', ``multiplies every array in
  the group by invvol, broadcast along the radial axis'', ``kernel math is identical
  across backends''), so the kernels do to their arguments what the CPU branches do.
\<close>

definition cuda_erase_scalar :: "array2d \<Rightarrow> array2d" where
  "cuda_erase_scalar F = set_to_zero F"

definition cuda_erase_vector :: "array2d \<Rightarrow> array2d \<Rightarrow> array2d \<Rightarrow> array2d \<times> array2d \<times> array2d" where
  "cuda_erase_vector F1 F2 F3 = (set_to_zero F1, set_to_zero F2, set_to_zero F3)"

definition cuda_divide_scalar_by_volume :: "array2d \<Rightarrow> real list \<Rightarrow> array2d" where
  "cuda_divide_scalar_by_volume F w = times_row_vector F w"

definition cuda_divide_vector_by_volume ::
  "array2d \<Rightarrow> array2d \<Rightarrow> array2d \<Rightarrow> real list \<Rightarrow> array2d \<times> array2d \<times> array2d" where
  "cuda_divide_vector_by_volume F1 F2 F3 w =
     (times_row_vector F1 w, times_row_vector F2 w, times_row_vector F3 w)"

text \<open>
  The methods mutate the grid and return nothing, or raise. A method is a function from
  the grid to the outcome (\<open>Inr ()\<close>, or \<open>Inl\<close> of the exception) and the grid it leaves.
  Reading \<^verbatim>\<open>self.d_invvol\<close> on a grid without that attribute raises \<^verbatim>\<open>AttributeError\<close>.
\<close>

definition invalid_fieldtype :: "string \<Rightarrow> error" where
  "invalid_fieldtype fieldtype = ValueError (''Invalid string for fieldtype: '' @ fieldtype)"

text \<open>\<^verbatim>\<open>FieldInterpolationGrid.erase\<close> (lines 163--208).\<close>

definition erase ::
  "string \<Rightarrow> FieldInterpolationGrid \<Rightarrow> (error + unit) \<times> FieldInterpolationGrid" where
  "erase fieldtype g =
     (if use_cuda g then
        (if fieldtype = ''rho'' then (Inr (), g\<lparr>rho := cuda_erase_scalar (rho g)\<rparr>)
         else if fieldtype = ''J'' then
           (case cuda_erase_vector (Jr g) (Jt g) (Jz g) of
              (F1, F2, F3) \<Rightarrow> (Inr (), g\<lparr>Jr := F1, Jt := F2, Jz := F3\<rparr>))
         else if fieldtype = ''E'' then
           (case cuda_erase_vector (Er g) (Et g) (Ez g) of
              (F1, F2, F3) \<Rightarrow> (Inr (), g\<lparr>Er := F1, Et := F2, Ez := F3\<rparr>))
         else if fieldtype = ''B'' then
           (case cuda_erase_vector (Br g) (Bt g) (Bz g) of
              (F1, F2, F3) \<Rightarrow> (Inr (), g\<lparr>Br := F1, Bt := F2, Bz := F3\<rparr>))
         else (Inl (invalid_fieldtype fieldtype), g))
      else
        (if fieldtype = ''rho'' then (Inr (), g\<lparr>rho := set_to_zero (rho g)\<rparr>)
         else if fieldtype = ''J'' then
           (Inr (), g\<lparr>Jr := set_to_zero (Jr g), Jt := set_to_zero (Jt g),
                      Jz := set_to_zero (Jz g)\<rparr>)
         else if fieldtype = ''E'' then
           (Inr (), g\<lparr>Er := set_to_zero (Er g), Et := set_to_zero (Et g),
                      Ez := set_to_zero (Ez g)\<rparr>)
         else if fieldtype = ''B'' then
           (Inr (), g\<lparr>Br := set_to_zero (Br g), Bt := set_to_zero (Bt g),
                      Bz := set_to_zero (Bz g)\<rparr>)
         else (Inl (invalid_fieldtype fieldtype), g)))"

text \<open>\<^verbatim>\<open>FieldInterpolationGrid.divide_by_volume\<close> (lines 210--245).\<close>

definition divide_by_volume ::
  "string \<Rightarrow> FieldInterpolationGrid \<Rightarrow> (error + unit) \<times> FieldInterpolationGrid" where
  "divide_by_volume fieldtype g =
     (if use_cuda g then
        (if fieldtype = ''rho'' then
           (case d_invvol g of
              None \<Rightarrow> (Inl AttributeError, g)
            | Some w \<Rightarrow> (Inr (), g\<lparr>rho := cuda_divide_scalar_by_volume (rho g) w\<rparr>))
         else if fieldtype = ''J'' then
           (case d_invvol g of
              None \<Rightarrow> (Inl AttributeError, g)
            | Some w \<Rightarrow>
                (case cuda_divide_vector_by_volume (Jr g) (Jt g) (Jz g) w of
                   (F1, F2, F3) \<Rightarrow> (Inr (), g\<lparr>Jr := F1, Jt := F2, Jz := F3\<rparr>)))
         else (Inl (invalid_fieldtype fieldtype), g))
      else
        (if fieldtype = ''rho'' then
           (Inr (), g\<lparr>rho := times_row_vector (rho g) (invvol g)\<rparr>)
         else if fieldtype = ''J'' then
           (Inr (), g\<lparr>Jr := times_row_vector (Jr g) (invvol g),
                      Jt := times_row_vector (Jt g) (invvol g),
                      Jz := times_row_vector (Jz g) (invvol g)\<rparr>)
         else (Inl (invalid_fieldtype fieldtype), g)))"

text \<open>
  \<^verbatim>\<open>EnvelopeInterpolationGrid.erase\<close> (lines 308--335) and
  \<^verbatim>\<open>EnvelopeInterpolationGrid.divide_by_volume_and_e0\<close> (lines 337--364). The constant
  \<^verbatim>\<open>epsilon_0\<close> is imported from \<^verbatim>\<open>scipy.constants\<close>; it is the first argument of the
  model of the method.
\<close>

definition envelope_erase ::
  "string \<Rightarrow> EnvelopeInterpolationGrid \<Rightarrow> (error + unit) \<times> EnvelopeInterpolationGrid" where
  "envelope_erase fieldtype g =
     (if use_cuda g then
        (if fieldtype = ''chi'' then (Inr (), g\<lparr>chi := cuda_erase_scalar (chi g)\<rparr>)
         else if fieldtype = ''chi_a'' then (Inr (), g\<lparr>chi_a := cuda_erase_scalar (chi_a g)\<rparr>)
         else (Inl (invalid_fieldtype fieldtype), g))
      else
        (if fieldtype = ''chi'' then (Inr (), g\<lparr>chi := set_to_zero (chi g)\<rparr>)
         else if fieldtype = ''chi_a'' then (Inr (), g\<lparr>chi_a := set_to_zero (chi_a g)\<rparr>)
         else (Inl (invalid_fieldtype fieldtype), g)))"

definition divide_by_volume_and_e0 ::
  "real \<Rightarrow> string \<Rightarrow> EnvelopeInterpolationGrid \<Rightarrow>
   (error + unit) \<times> EnvelopeInterpolationGrid" where
  "divide_by_volume_and_e0 epsilon_0 fieldtype g =
     (if use_cuda g then
        (if fieldtype = ''chi'' then
           (case d_invvol g of
              None \<Rightarrow> (Inl AttributeError, g)
            | Some w \<Rightarrow>
                (Inr (), g\<lparr>chi := cuda_divide_scalar_by_volume (chi g)
                                     (map (\<lambda>v. v / epsilon_0) w)\<rparr>))
         else (Inl (invalid_fieldtype fieldtype), g))
      else
        (if fieldtype = ''chi'' then
           (Inr (), g\<lparr>chi := times_row_vector (chi g) (map (\<lambda>v. v / epsilon_0) (invvol g))\<rparr>)
         else (Inl (invalid_fieldtype fieldtype), g)))"

text \<open>
  For the statements about the grid arrays: an array whose entries are all zero, and the
  shape of an array (the lengths of its rows).
\<close>

definition all_zero :: "array2d \<Rightarrow> bool" where
  "all_zero F = list_all (list_all (\<lambda>v. v = 0)) F"

definition shape :: "array2d \<Rightarrow> nat list" where
  "shape F = map length F"

text \<open>
  Two small grids with two longitudinal and two radial cells on the box \<open>[0, 1] \<times> [0, 1]\<close>,
  with non-zero entries in every array, on which the statements are evaluated.
\<close>

definition sample_field_grid :: FieldInterpolationGrid where
  "sample_field_grid =
     \<lparr>Nz = 2, Nr = 2, m = 0, dr = 1 / 2, dz = 1 / 2, invdr = 2, invdz = 2,
      rmin = 0, rmax = 1, zmin = 0, zmax = 1, invvol = [8 / pi, 8 / (3 * pi)],
      use_cuda = False, d_invvol = None,
      Er = [[1, 2], [3, 4]], Et = [[5, 6], [7, 8]], Ez = [[9, 10], [11, 12]],
      Br = [[1, 3], [5, 7]], Bt = [[2, 4], [6, 8]], Bz = [[1, 4], [7, 10]],
      Jr = [[2, 5], [8, 11]], Jt = [[3, 6], [9, 12]], Jz = [[1, 5], [9, 13]],
      rho = [[2, 6], [10, 14]]\<rparr>"

definition sample_envelope_grid :: EnvelopeInterpolationGrid where
  "sample_envelope_grid =
     \<lparr>Nz = 2, Nr = 2, m = 0, dr = 1 / 2, dz = 1 / 2, invdr = 2, invdz = 2,
      rmin = 0, rmax = 1, zmin = 0, zmax = 1, invvol = [8 / pi, 8 / (3 * pi)],
      use_cuda = False, d_invvol = None,
      a = [[1, 2], [3, 4]], dta = [[5, 6], [7, 8]], grad_a_r = [[9, 10], [11, 12]],
      grad_a_t = [[1, 3], [5, 7]], grad_a_z = [[2, 4], [6, 8]],
      chi = [[1, 4], [7, 10]], chi_a = [[2, 5], [8, 11]]\<rparr>"

section \<open>Properties of the shape factors\<close>

text \<open>
  Claim C5. The shape-function weights form a partition of unity on each axis: at every
  particle position the two linear weights of the radial axis and the two of the
  longitudinal axis, \<open>upper index - coordinate\<close> and \<open>coordinate - lower index\<close>, sum to
  1; the four cubic factors sum to 1 at every local offset \<open>u\<close> (in particular for
  \<open>0 \<le> u < 1\<close>), and so do the four factors the kernel computes at a cell coordinate.
\<close>

theorem shape_weights_partition_of_unity:
  fixes invdz zmin invdr rmin rj zj u cell :: real
  shows "Sr_lower (linear_weights invdz zmin invdr rmin rj zj)
     + Sr_upper (linear_weights invdz zmin invdr rmin rj zj) = 1
   \<and> Sz_lower (linear_weights invdz zmin invdr rmin rj zj)
     + Sz_upper (linear_weights invdz zmin invdr rmin rj zj) = 1
   \<and> sum_list (cubic_shape_factors u) = 1
   \<and> sum_list (snd (cubic_weights cell)) = 1"
proof -
  have cubic: "sum_list (cubic_shape_factors v) = 1" for v
    by (simp add: cubic_shape_factors_def power2_eq_square power3_eq_cube algebra_simps)
  have lin: "Sr_lower (linear_weights invdz zmin invdr rmin rj zj)
     + Sr_upper (linear_weights invdz zmin invdr rmin rj zj) = 1"
    by (simp add: linear_weights_def Let_def)
  have linz: "Sz_lower (linear_weights invdz zmin invdr rmin rj zj)
     + Sz_upper (linear_weights invdz zmin invdr rmin rj zj) = 1"
    by (simp add: linear_weights_def Let_def)
  show ?thesis
    using cubic lin linz by (simp add: cubic_weights_def Let_def)
qed

section \<open>Boundary treatment of the linear stencil\<close>

text \<open>Bounds on the original indices, and the fields of the stencil after each block.\<close>

lemma z_floor_bounds:
  fixes dz invdz zmin zj :: real and Nz :: int
  assumes "0 < dz" "invdz = 1 / dz" "zmin - dz \<le> zj" "zj \<le> zmin + of_int Nz * dz + dz"
  shows "- 2 \<le> \<lfloor>invdz * (zj - zmin) - 0.5\<rfloor>" "\<lfloor>invdz * (zj - zmin) - 0.5\<rfloor> \<le> Nz"
proof -
  have a: "- 1 \<le> (zj - zmin) / dz" using assms by (simp add: field_simps)
  have b: "(zj - zmin) / dz \<le> of_int Nz + 1" using assms by (simp add: field_simps)
  have e: "invdz * (zj - zmin) = (zj - zmin) / dz" using assms by simp
  show "- 2 \<le> \<lfloor>invdz * (zj - zmin) - 0.5\<rfloor>" unfolding e using a by linarith
  show "\<lfloor>invdz * (zj - zmin) - 0.5\<rfloor> \<le> Nz" unfolding e using b by linarith
qed

lemma r_floor_bound:
  fixes invdr rmin rj :: real
  assumes "0 \<le> invdr" "rmin \<le> rj"
  shows "- 1 \<le> \<lfloor>invdr * (rj - rmin) - 0.5\<rfloor>"
proof -
  have "0 \<le> invdr * (rj - rmin)" using assms by simp
  then show ?thesis by linarith
qed

lemma linear_weights_sel:
  fixes invdz zmin invdr rmin rj zj :: real
  shows "ir_lower (linear_weights invdz zmin invdr rmin rj zj) = \<lfloor>invdr * (rj - rmin) - 0.5\<rfloor>"
  "ir_upper (linear_weights invdz zmin invdr rmin rj zj) = \<lfloor>invdr * (rj - rmin) - 0.5\<rfloor> + 1"
  "iz_lower (linear_weights invdz zmin invdr rmin rj zj) = \<lfloor>invdz * (zj - zmin) - 0.5\<rfloor>"
  "iz_upper (linear_weights invdz zmin invdr rmin rj zj) = \<lfloor>invdz * (zj - zmin) - 0.5\<rfloor> + 1"
  "Sr_guard (linear_weights invdz zmin invdr rmin rj zj) = 0"
  by (simp_all add: linear_weights_def Let_def)

lemma guard_cells_lower_r_sel:
  "ir_lower (guard_cells_lower_r s) = (if ir_lower s < 0 then 0 else ir_lower s)"
  "ir_upper (guard_cells_lower_r s) = ir_upper s"
  "iz_lower (guard_cells_lower_r s) = iz_lower s"
  "iz_upper (guard_cells_lower_r s) = iz_upper s"
  "Sr_guard (guard_cells_lower_r s) = (if ir_lower s < 0 then Sr_lower s else Sr_guard s)"
  "Sr_lower (guard_cells_lower_r s) = (if ir_lower s < 0 then 0 else Sr_lower s)"
  "Sr_upper (guard_cells_lower_r s) = Sr_upper s"
  "Sz_lower (guard_cells_lower_r s) = Sz_lower s"
  "Sz_upper (guard_cells_lower_r s) = Sz_upper s"
  by (simp_all add: guard_cells_lower_r_def)

lemma absorbing_upper_r_sel:
  fixes Nr :: int
  shows "ir_lower (absorbing_upper_r Nr s) = (if ir_lower s > Nr - 1 then Nr - 1 else ir_lower s)"
  "ir_upper (absorbing_upper_r Nr s) = (if ir_upper s > Nr - 1 then Nr - 1 else ir_upper s)"
  "iz_lower (absorbing_upper_r Nr s) = iz_lower s"
  "iz_upper (absorbing_upper_r Nr s) = iz_upper s"
  "Sr_guard (absorbing_upper_r Nr s) = Sr_guard s"
  "Sr_lower (absorbing_upper_r Nr s) = Sr_lower s"
  "Sr_upper (absorbing_upper_r Nr s) = Sr_upper s"
  "Sz_lower (absorbing_upper_r Nr s) = Sz_lower s"
  "Sz_upper (absorbing_upper_r Nr s) = Sz_upper s"
  by (simp_all add: absorbing_upper_r_def Let_def)

lemma lower_z_boundaries_sel:
  fixes Nz :: int
  shows "ir_lower (lower_z_boundaries Nz s) = ir_lower s"
  "ir_upper (lower_z_boundaries Nz s) = ir_upper s"
  "iz_lower (lower_z_boundaries Nz s) = (if iz_lower s < 0 then iz_lower s + Nz else iz_lower s)"
  "iz_upper (lower_z_boundaries Nz s) = (if iz_upper s < 0 then iz_upper s + Nz else iz_upper s)"
  "Sr_guard (lower_z_boundaries Nz s) = Sr_guard s"
  "Sr_lower (lower_z_boundaries Nz s) = Sr_lower s"
  "Sr_upper (lower_z_boundaries Nz s) = Sr_upper s"
  "Sz_lower (lower_z_boundaries Nz s) = Sz_lower s"
  "Sz_upper (lower_z_boundaries Nz s) = Sz_upper s"
  by (simp_all add: lower_z_boundaries_def Let_def)

lemma upper_z_boundaries_sel:
  fixes Nz :: int
  shows "ir_lower (upper_z_boundaries Nz s) = ir_lower s"
  "ir_upper (upper_z_boundaries Nz s) = ir_upper s"
  "iz_lower (upper_z_boundaries Nz s) = (if iz_lower s > Nz - 1 then iz_lower s - Nz else iz_lower s)"
  "iz_upper (upper_z_boundaries Nz s) = (if iz_upper s > Nz - 1 then iz_upper s - Nz else iz_upper s)"
  "Sr_guard (upper_z_boundaries Nz s) = Sr_guard s"
  "Sr_lower (upper_z_boundaries Nz s) = Sr_lower s"
  "Sr_upper (upper_z_boundaries Nz s) = Sr_upper s"
  "Sz_lower (upper_z_boundaries Nz s) = Sz_lower s"
  "Sz_upper (upper_z_boundaries Nz s) = Sz_upper s"
  by (simp_all add: upper_z_boundaries_def Let_def)

lemma linear_boundaries_sel:
  fixes Nz Nr :: int
  shows "ir_lower (linear_boundaries Nz Nr s0) =
     (let l = (if ir_lower s0 < 0 then 0 else ir_lower s0) in if l > Nr - 1 then Nr - 1 else l)"
  "ir_upper (linear_boundaries Nz Nr s0) = (if ir_upper s0 > Nr - 1 then Nr - 1 else ir_upper s0)"
  "iz_lower (linear_boundaries Nz Nr s0) =
     (let l = (if iz_lower s0 < 0 then iz_lower s0 + Nz else iz_lower s0) in if l > Nz - 1 then l - Nz else l)"
  "iz_upper (linear_boundaries Nz Nr s0) =
     (let l = (if iz_upper s0 < 0 then iz_upper s0 + Nz else iz_upper s0) in if l > Nz - 1 then l - Nz else l)"
  "Sr_guard (linear_boundaries Nz Nr s0) = (if ir_lower s0 < 0 then Sr_lower s0 else Sr_guard s0)"
  "Sr_lower (linear_boundaries Nz Nr s0) = (if ir_lower s0 < 0 then 0 else Sr_lower s0)"
  "Sr_upper (linear_boundaries Nz Nr s0) = Sr_upper s0"
  "Sz_lower (linear_boundaries Nz Nr s0) = Sz_lower s0"
  "Sz_upper (linear_boundaries Nz Nr s0) = Sz_upper s0"
  unfolding linear_boundaries_def upper_z_boundaries_sel lower_z_boundaries_sel
    absorbing_upper_r_sel guard_cells_lower_r_sel Let_def
  by simp_all

text \<open>
  Claim C4, amended. In the linear-order shape evaluation on a grid with at least two
  longitudinal cells (\<open>Nz \<ge> 2\<close>) and at least one radial cell, for a particle whose radius
  is at least \<open>rmin\<close> and whose \<open>z\<close> lies within one cell of the box
  (\<open>zmin - dz \<le> z \<le> zmax + dz\<close> with \<open>zmax = zmin + Nz * dz\<close>), all retained support
  indices lie in \<open>[0, Nr - 1] \<times> [0, Nz - 1]\<close>: a radial lower index below 0 has its weight
  moved to the guard bucket, its regular lower weight set to 0 and its index set to 0;
  radial indices above \<open>Nr - 1\<close> are set to \<open>Nr - 1\<close>; a longitudinal index outside
  \<open>[0, Nz - 1]\<close> is shifted by exactly \<open>Nz\<close>, up or down; and a particle at
  \<open>z = zmin - 0.4 * dz\<close> has lower support index \<open>Nz - 1\<close>.
\<close>

theorem linear_boundary_indices_in_range:
  fixes dz invdz zmin zj invdr rmin rj :: real and Nz Nr :: int
  assumes grid: "2 \<le> Nz" "1 \<le> Nr" "0 < dz" "invdz = 1 / dz" "0 \<le> invdr"
    and radius: "rmin \<le> rj"
    and near: "zmin - dz \<le> zj" "zj \<le> zmin + of_int Nz * dz + dz"
  defines "s0 \<equiv> linear_weights invdz zmin invdr rmin rj zj"
    and "s \<equiv> linear_shape invdz zmin Nz invdr rmin Nr rj zj"
  shows "0 \<le> ir_lower s \<and> ir_lower s \<le> Nr - 1 \<and> 0 \<le> ir_upper s \<and> ir_upper s \<le> Nr - 1
    \<and> 0 \<le> iz_lower s \<and> iz_lower s \<le> Nz - 1 \<and> 0 \<le> iz_upper s \<and> iz_upper s \<le> Nz - 1
    \<and> (if ir_lower s0 < 0
        then Sr_guard s = Sr_lower s0 \<and> Sr_lower s = 0 \<and> ir_lower s = 0
        else Sr_guard s = 0 \<and> Sr_lower s = Sr_lower s0 \<and> ir_lower s = min (ir_lower s0) (Nr - 1))
    \<and> ir_upper s = min (ir_upper s0) (Nr - 1)
    \<and> iz_lower s = (if iz_lower s0 < 0 then iz_lower s0 + Nz
                    else if iz_lower s0 > Nz - 1 then iz_lower s0 - Nz else iz_lower s0)
    \<and> iz_upper s = (if iz_upper s0 < 0 then iz_upper s0 + Nz
                    else if iz_upper s0 > Nz - 1 then iz_upper s0 - Nz else iz_upper s0)
    \<and> (zj = zmin - 0.4 * dz \<longrightarrow> iz_lower s = Nz - 1)"
proof -
  have s: "s = linear_boundaries Nz Nr s0"
    by (simp add: s_def s0_def linear_shape_def)
  have zb: "- 2 \<le> iz_lower s0" "iz_lower s0 \<le> Nz"
    using z_floor_bounds[OF grid(3,4) near] by (simp_all add: s0_def linear_weights_sel)
  have rb: "- 1 \<le> ir_lower s0"
    using r_floor_bound[OF grid(5) radius] by (simp add: s0_def linear_weights_sel)
  have up: "ir_upper s0 = ir_lower s0 + 1" "iz_upper s0 = iz_lower s0 + 1" "Sr_guard s0 = 0"
    by (simp_all add: s0_def linear_weights_sel)
  have r_range: "0 \<le> ir_lower s \<and> ir_lower s \<le> Nr - 1 \<and> 0 \<le> ir_upper s \<and> ir_upper s \<le> Nr - 1"
    using rb grid(2) by (simp add: s linear_boundaries_sel Let_def up)
  have z_range: "0 \<le> iz_lower s \<and> iz_lower s \<le> Nz - 1 \<and> 0 \<le> iz_upper s \<and> iz_upper s \<le> Nz - 1"
    using zb grid(1) by (simp add: s linear_boundaries_sel Let_def up)
  have guard: "if ir_lower s0 < 0
        then Sr_guard s = Sr_lower s0 \<and> Sr_lower s = 0 \<and> ir_lower s = 0
        else Sr_guard s = 0 \<and> Sr_lower s = Sr_lower s0 \<and> ir_lower s = min (ir_lower s0) (Nr - 1)"
    using grid(2) by (simp add: s linear_boundaries_sel Let_def up min_def)
  have clamp: "ir_upper s = min (ir_upper s0) (Nr - 1)"
    by (simp add: s linear_boundaries_sel min_def)
  have wl: "iz_lower s = (if iz_lower s0 < 0 then iz_lower s0 + Nz
                    else if iz_lower s0 > Nz - 1 then iz_lower s0 - Nz else iz_lower s0)"
    using zb grid(1) by (simp add: s linear_boundaries_sel Let_def)
  have wu: "iz_upper s = (if iz_upper s0 < 0 then iz_upper s0 + Nz
                    else if iz_upper s0 > Nz - 1 then iz_upper s0 - Nz else iz_upper s0)"
    using zb grid(1) by (simp add: s linear_boundaries_sel Let_def up)
  have low: "iz_lower s = Nz - 1" if "zj = zmin - 0.4 * dz"
  proof -
    have "invdz * (zj - zmin) - 0.5 = - 0.9"
      using that grid(3,4) by simp
    then have "iz_lower s0 = - 1"
      by (simp add: s0_def linear_weights_sel)
    then show ?thesis
      using grid(1) by (simp add: s linear_boundaries_sel Let_def)
  qed
  show ?thesis
    using r_range z_range guard clamp wl wu low by simp
qed

theorem linear_boundary_indices_in_range_witness:
  "iz_lower (linear_shape 1 0 4 1 0 3 0 (- 0.4)) = 3
   \<and> iz_upper (linear_shape 1 0 4 1 0 3 0 (- 0.4)) = 0
   \<and> ir_lower (linear_shape 1 0 4 1 0 3 0 (- 0.4)) = 0
   \<and> ir_upper (linear_shape 1 0 4 1 0 3 0 (- 0.4)) = 0
   \<and> Sr_lower (linear_shape 1 0 4 1 0 3 0 (- 0.4)) = 0
   \<and> Sr_guard (linear_shape 1 0 4 1 0 3 0 (- 0.4)) = 1 / 2"
  using linear_boundary_indices_in_range [of 4 3 1 1 1 0 0 0 "- 0.4"]
  by (simp add: linear_weights_sel linear_weights_def Let_def)

text \<open>
  With a single longitudinal cell the claim as first stated fails: the particle at
  \<open>z = zmin - 0.6 * dz\<close> is within one cell of the box, its original lower index is
  \<open>- 2\<close>, and the single shift by \<open>Nz = 1\<close> leaves the index \<open>- 1\<close>.
\<close>

theorem linear_single_cell_wrap_counterexample:
  "(0::real) - 1 \<le> - 0.6 \<and> iz_lower (linear_shape 1 0 1 1 0 1 0 (- 0.6)) = - 1"
  by (simp add: linear_shape_def linear_boundaries_sel linear_weights_sel Let_def)

section \<open>The particle loop of the field gather\<close>

text \<open>
  One iteration keeps the lengths of the output arrays, leaves every other slot as it
  was, and puts the values of its particle into its own slot; the same holds for a
  whole loop, in whatever order its iterations run.
\<close>

lemma write_particle_fields_lengths:
  fixes x y z :: "real list"
  shows "output_lengths (write_particle_fields body x y z i outs) = output_lengths outs"
  by (cases outs; cases "body (x ! i) (y ! i) (z ! i)")
     (simp add: write_particle_fields_def output_lengths_def)

lemma write_particle_fields_inside:
  fixes x y z :: "real list"
  shows "inside_outputs (write_particle_fields body x y z i outs) k = inside_outputs outs k"
  by (cases outs; cases "body (x ! i) (y ! i) (z ! i)")
     (simp add: write_particle_fields_def inside_outputs_def)

lemma write_particle_fields_other:
  fixes x y z :: "real list"
  shows "j \<noteq> i \<Longrightarrow> fields_at (write_particle_fields body x y z i outs) j = fields_at outs j"
  by (cases outs; cases "body (x ! i) (y ! i) (z ! i)")
     (simp add: write_particle_fields_def fields_at_def)

lemma write_particle_fields_self:
  fixes x y z :: "real list"
  shows "inside_outputs outs i \<Longrightarrow>
   fields_at (write_particle_fields body x y z i outs) i = body (x ! i) (y ! i) (z ! i)"
  by (cases outs; cases "body (x ! i) (y ! i) (z ! i)")
     (simp add: write_particle_fields_def fields_at_def inside_outputs_def)

lemma particle_loop_lengths:
  fixes x y z :: "real list"
  shows "output_lengths (fold (write_particle_fields body x y z) sched outs) = output_lengths outs"
  by (induction sched arbitrary: outs) (simp_all add: write_particle_fields_lengths)

lemma particle_loop_inside:
  fixes x y z :: "real list"
  shows "inside_outputs (fold (write_particle_fields body x y z) sched outs) k = inside_outputs outs k"
  by (induction sched arbitrary: outs) (simp_all add: write_particle_fields_inside)

lemma particle_loop_untouched:
  fixes x y z :: "real list"
  shows "j \<notin> set sched \<Longrightarrow>
   fields_at (fold (write_particle_fields body x y z) sched outs) j = fields_at outs j"
  by (induction sched arbitrary: outs) (simp_all add: write_particle_fields_other)

lemma particle_loop_written:
  fixes x y z :: "real list"
  shows "i \<in> set sched \<Longrightarrow> inside_outputs outs i \<Longrightarrow>
   fields_at (fold (write_particle_fields body x y z) sched outs) i
     = body (x ! i) (y ! i) (z ! i)"
proof (induction sched arbitrary: outs)
  case Nil
  then show ?case by simp
next
  case (Cons k sched)
  let ?outs = "write_particle_fields body x y z k outs"
  have inside: "inside_outputs ?outs i"
    using Cons.prems(2) by (simp add: write_particle_fields_inside)
  show ?case
  proof (cases "i \<in> set sched")
    case True
    then show ?thesis using Cons.IH[OF True inside] by simp
  next
    case False
    then have "k = i" using Cons.prems(1) by simp
    then show ?thesis
      using False Cons.prems(2)
      by (simp add: particle_loop_untouched write_particle_fields_self)
  qed
qed


text \<open>
  Claim C9. The field gather is order-independent and frame-respecting, for the linear
  and for the cubic kernel. Take two runs of a kernel on the same grid arrays, with any
  two particle batches, any two orders of the iterations, any two chunk partitions and
  any previous contents of the output arrays. If particle \<open>i\<close> has the same position in
  both batches and its iteration runs in both, then the six values written at index \<open>i\<close>
  are those computed from the position of that particle and the grid alone, and they are
  equal in the two runs. A slot whose iteration does not run keeps its previous values,
  and the output arrays keep their lengths. The kernels return the six output arrays
  only: the position arrays and the grid arrays are arguments that are read, never
  written (the inline function being a pure function of its arguments).
\<close>

theorem gather_field_order_independent:
  fixes add_l :: linear_gather_for_mode
    and add_c :: cubic_gather_for_mode
    and invdz zmin invdr rmin :: real
    and Nz Nr :: int
    and Er_m0 Et_m0 Ez_m0 Er_m1 Et_m1 Ez_m1 Br_m0 Bt_m0 Bz_m0 Br_m1 Bt_m1 Bz_m1 :: array2d
    and x y z x2 y2 z2 Ex1 Ey1 Ez1 Bx1 By1 Bz1 Ex2 Ey2 Ez2 Bx2 By2 Bz2 :: "real list"
    and sched sched2 threads threads2 chunks chunks2 :: "nat list"
    and i j :: nat
  defines "lin1 \<equiv> gather_field_numba_linear add_l sched x y z invdz zmin Nz invdr rmin Nr
             Er_m0 Et_m0 Ez_m0 Er_m1 Et_m1 Ez_m1 Br_m0 Bt_m0 Bz_m0 Br_m1 Bt_m1 Bz_m1 Ex1 Ey1 Ez1 Bx1 By1 Bz1"
    and "lin2 \<equiv> gather_field_numba_linear add_l sched2 x2 y2 z2 invdz zmin Nz invdr rmin Nr
             Er_m0 Et_m0 Ez_m0 Er_m1 Et_m1 Ez_m1 Br_m0 Bt_m0 Bz_m0 Br_m1 Bt_m1 Bz_m1 Ex2 Ey2 Ez2 Bx2 By2 Bz2"
    and "cub1 \<equiv> gather_field_numba_cubic add_c threads x y z invdz zmin Nz invdr rmin Nr
             Er_m0 Et_m0 Ez_m0 Er_m1 Et_m1 Ez_m1 Br_m0 Bt_m0 Bz_m0 Br_m1 Bt_m1 Bz_m1 Ex1 Ey1 Ez1 Bx1 By1 Bz1 chunks"
    and "cub2 \<equiv> gather_field_numba_cubic add_c threads2 x2 y2 z2 invdz zmin Nz invdr rmin Nr
             Er_m0 Et_m0 Ez_m0 Er_m1 Et_m1 Ez_m1 Br_m0 Bt_m0 Bz_m0 Br_m1 Bt_m1 Bz_m1 Ex2 Ey2 Ez2 Bx2 By2 Bz2 chunks2"
  assumes same: "x ! i = x2 ! i" "y ! i = y2 ! i" "z ! i = z2 ! i"
    and inside: "inside_outputs (Ex1, Ey1, Ez1, Bx1, By1, Bz1) i"
                "inside_outputs (Ex2, Ey2, Ez2, Bx2, By2, Bz2) i"
    and lin: "i \<in> set sched" "i \<in> set sched2"
    and cub: "i \<in> set (chunk_schedule threads chunks)"
             "i \<in> set (chunk_schedule threads2 chunks2)"
  shows "fields_at lin1 i = gather_linear_for_particle add_l invdz zmin Nz invdr rmin Nr
             Er_m0 Et_m0 Ez_m0 Er_m1 Et_m1 Ez_m1 Br_m0 Bt_m0 Bz_m0 Br_m1 Bt_m1 Bz_m1 (x ! i) (y ! i) (z ! i)
    \<and> fields_at lin1 i = fields_at lin2 i
    \<and> fields_at cub1 i = gather_cubic_for_particle add_c invdz zmin Nz invdr rmin Nr
             Er_m0 Et_m0 Ez_m0 Er_m1 Et_m1 Ez_m1 Br_m0 Bt_m0 Bz_m0 Br_m1 Bt_m1 Bz_m1 (x ! i) (y ! i) (z ! i)
    \<and> fields_at cub1 i = fields_at cub2 i
    \<and> (j \<notin> set sched \<longrightarrow> fields_at lin1 j = fields_at (Ex1, Ey1, Ez1, Bx1, By1, Bz1) j)
    \<and> (j \<notin> set (chunk_schedule threads chunks) \<longrightarrow>
          fields_at cub1 j = fields_at (Ex1, Ey1, Ez1, Bx1, By1, Bz1) j)
    \<and> output_lengths lin1 = output_lengths (Ex1, Ey1, Ez1, Bx1, By1, Bz1)
    \<and> output_lengths cub1 = output_lengths (Ex1, Ey1, Ez1, Bx1, By1, Bz1)"
proof -
  have l1: "fields_at lin1 i = gather_linear_for_particle add_l invdz zmin Nz invdr rmin Nr
             Er_m0 Et_m0 Ez_m0 Er_m1 Et_m1 Ez_m1 Br_m0 Bt_m0 Bz_m0 Br_m1 Bt_m1 Bz_m1 (x ! i) (y ! i) (z ! i)"
    unfolding lin1_def gather_field_numba_linear_def
    by (rule particle_loop_written[OF lin(1) inside(1)])
  have l2: "fields_at lin2 i = gather_linear_for_particle add_l invdz zmin Nz invdr rmin Nr
             Er_m0 Et_m0 Ez_m0 Er_m1 Et_m1 Ez_m1 Br_m0 Bt_m0 Bz_m0 Br_m1 Bt_m1 Bz_m1 (x2 ! i) (y2 ! i) (z2 ! i)"
    unfolding lin2_def gather_field_numba_linear_def
    by (rule particle_loop_written[OF lin(2) inside(2)])
  have c1: "fields_at cub1 i = gather_cubic_for_particle add_c invdz zmin Nz invdr rmin Nr
             Er_m0 Et_m0 Ez_m0 Er_m1 Et_m1 Ez_m1 Br_m0 Bt_m0 Bz_m0 Br_m1 Bt_m1 Bz_m1 (x ! i) (y ! i) (z ! i)"
    unfolding cub1_def gather_field_numba_cubic_def
    by (rule particle_loop_written[OF cub(1) inside(1)])
  have c2: "fields_at cub2 i = gather_cubic_for_particle add_c invdz zmin Nz invdr rmin Nr
             Er_m0 Et_m0 Ez_m0 Er_m1 Et_m1 Ez_m1 Br_m0 Bt_m0 Bz_m0 Br_m1 Bt_m1 Bz_m1 (x2 ! i) (y2 ! i) (z2 ! i)"
    unfolding cub2_def gather_field_numba_cubic_def
    by (rule particle_loop_written[OF cub(2) inside(2)])
  have f1: "fields_at lin1 j = fields_at (Ex1, Ey1, Ez1, Bx1, By1, Bz1) j" if "j \<notin> set sched"
    unfolding lin1_def gather_field_numba_linear_def
    by (rule particle_loop_untouched[OF that])
  have f2: "fields_at cub1 j = fields_at (Ex1, Ey1, Ez1, Bx1, By1, Bz1) j"
    if "j \<notin> set (chunk_schedule threads chunks)"
    unfolding cub1_def gather_field_numba_cubic_def
    by (rule particle_loop_untouched[OF that])
  have n1: "output_lengths lin1 = output_lengths (Ex1, Ey1, Ez1, Bx1, By1, Bz1)"
    unfolding lin1_def gather_field_numba_linear_def by (rule particle_loop_lengths)
  have n2: "output_lengths cub1 = output_lengths (Ex1, Ey1, Ez1, Bx1, By1, Bz1)"
    unfolding cub1_def gather_field_numba_cubic_def by (rule particle_loop_lengths)
  show ?thesis
    using l1 l2 c1 c2 f1 f2 n1 n2 by (simp add: same)
qed


theorem gather_field_order_independent_witness:
  "fields_at (gather_field_numba_linear (\<lambda>m Fr Ft Fz e A B C izl izu irl iru sll slu slg sul suu sug. (Fr + sll, Ft + slu, Fz + suu)) [0] [1, 4] [0, 0] [0, 0] 1 0 2 1 0 2 [] [] [] [] [] [] [] [] [] [] [] [] [9, 9] [9, 9] [9, 9] [9, 9] [9, 9] [9, 9]) 0
     = fields_at (gather_field_numba_linear (\<lambda>m Fr Ft Fz e A B C izl izu irl iru sll slu slg sul suu sug. (Fr + sll, Ft + slu, Fz + suu)) [2, 1, 0] [1, 7, 8] [0, 2, 3] [0, 5, 6] 1 0 2 1 0 2 [] [] [] [] [] [] [] [] [] [] [] [] [5, 5, 5] [5, 5, 5] [5, 5, 5] [5, 5, 5] [5, 5, 5] [5, 5, 5]) 0
   \<and> fields_at (gather_field_numba_cubic (\<lambda>m Fr Ft Fz e A B C irl izl Sr Sz nr nz. (Fr + Sr ! 0, Ft + Sz ! 1, Fz + 1)) [0] [1, 4] [0, 0] [0, 0] 1 0 2 1 0 2 [] [] [] [] [] [] [] [] [] [] [] [] [9, 9] [9, 9] [9, 9] [9, 9] [9, 9] [9, 9] [0, 1]) 0
     = fields_at (gather_field_numba_cubic (\<lambda>m Fr Ft Fz e A B C irl izl Sr Sz nr nz. (Fr + Sr ! 0, Ft + Sz ! 1, Fz + 1)) [1, 0] [1, 7, 8] [0, 2, 3] [0, 5, 6] 1 0 2 1 0 2 [] [] [] [] [] [] [] [] [] [] [] [] [5, 5, 5] [5, 5, 5] [5, 5, 5] [5, 5, 5] [5, 5, 5] [5, 5, 5] [0, 2, 3]) 0
   \<and> fields_at (gather_field_numba_linear (\<lambda>m Fr Ft Fz e A B C izl izu irl iru sll slu slg sul suu sug. (Fr + sll, Ft + slu, Fz + suu)) [0] [1, 4] [0, 0] [0, 0] 1 0 2 1 0 2 [] [] [] [] [] [] [] [] [] [] [] [] [9, 9] [9, 9] [9, 9] [9, 9] [9, 9] [9, 9]) 1 = (9, 9, 9, 9, 9, 9)
   \<and> fields_at (gather_field_numba_cubic (\<lambda>m Fr Ft Fz e A B C irl izl Sr Sz nr nz. (Fr + Sr ! 0, Ft + Sz ! 1, Fz + 1)) [0] [1, 4] [0, 0] [0, 0] 1 0 2 1 0 2 [] [] [] [] [] [] [] [] [] [] [] [] [9, 9] [9, 9] [9, 9] [9, 9] [9, 9] [9, 9] [0, 1]) 1 = (9, 9, 9, 9, 9, 9)"
proof -
  have r: "fields_at ([9, 9], [9, 9], [9, 9], [9, 9], [9, 9], [9, 9]) 1
             = (9 :: real, 9 :: real, 9 :: real, 9 :: real, 9 :: real, 9 :: real)"
    by (simp add: fields_at_def)
  have same: "[1, 4 :: real] ! 0 = [1, 7, 8] ! 0" "[0, 0 :: real] ! 0 = [0, 2, 3] ! 0"
    "[0, 0 :: real] ! 0 = [0, 5, 6] ! 0"
    by simp_all
  have inside: "inside_outputs ([9, 9 :: real], [9, 9 :: real], [9, 9 :: real],
                   [9, 9 :: real], [9, 9 :: real], [9, 9 :: real]) 0"
    "inside_outputs ([5, 5, 5 :: real], [5, 5, 5 :: real], [5, 5, 5 :: real],
                   [5, 5, 5 :: real], [5, 5, 5 :: real], [5, 5, 5 :: real]) 0"
    by (simp_all add: inside_outputs_def)
  have mem: "(0::nat) \<in> set [0]" "(0::nat) \<in> set [2, 1, 0]"
    "0 \<in> set (chunk_schedule [0] [0, 1])" "0 \<in> set (chunk_schedule [1, 0] [0, 2, 3])"
    by (simp_all add: chunk_schedule_def)
  have out: "(1::nat) \<notin> set [0]" "1 \<notin> set (chunk_schedule [0] [0, 1])"
    by (simp_all add: chunk_schedule_def)
  note c = gather_field_order_independent
    [where add_l = "(\<lambda>m Fr Ft Fz e A B C izl izu irl iru sll slu slg sul suu sug. (Fr + sll, Ft + slu, Fz + suu))"
       and add_c = "(\<lambda>m Fr Ft Fz e A B C irl izl Sr Sz nr nz. (Fr + Sr ! 0, Ft + Sz ! 1, Fz + 1))"
       and invdz = 1 and zmin = 0 and Nz = 2 and invdr = 1 and rmin = 0 and Nr = 2
       and ?Er_m0.0 = "[]" and ?Et_m0.0 = "[]" and ?Ez_m0.0 = "[]" and ?Er_m1.0 = "[]" and ?Et_m1.0 = "[]" and ?Ez_m1.0 = "[]" and ?Br_m0.0 = "[]" and ?Bt_m0.0 = "[]" and ?Bz_m0.0 = "[]" and ?Br_m1.0 = "[]" and ?Bt_m1.0 = "[]" and ?Bz_m1.0 = "[]" and ?Ex1.0 = "[9, 9]" and ?Ey1.0 = "[9, 9]" and ?Ez1.0 = "[9, 9]" and ?Bx1.0 = "[9, 9]" and ?By1.0 = "[9, 9]" and ?Bz1.0 = "[9, 9]" and ?Ex2.0 = "[5, 5, 5]" and ?Ey2.0 = "[5, 5, 5]" and ?Ez2.0 = "[5, 5, 5]" and ?Bx2.0 = "[5, 5, 5]" and ?By2.0 = "[5, 5, 5]" and ?Bz2.0 = "[5, 5, 5]"
       and x = "[1, 4]" and y = "[0, 0]" and z = "[0, 0]"
       and ?x2.0 = "[1, 7, 8]" and ?y2.0 = "[0, 2, 3]" and ?z2.0 = "[0, 5, 6]"
       and sched = "[0]" and ?sched2.0 = "[2, 1, 0]"
       and threads = "[0]" and chunks = "[0, 1]"
       and ?threads2.0 = "[1, 0]" and ?chunks2.0 = "[0, 2, 3]"
       and i = 0 and j = 1, OF same inside mem]
  show ?thesis
    using c out r by metis
qed

section \<open>The envelope kernels: mode loop and registration\<close>

text \<open>
  What the registration block stores, for all sums and all previous values: without
  averaging the new values \<open>Re (F * cnj F)\<close>, \<open>2 * Re (Fx * cnj F)\<close>,
  \<open>2 * Re (Fy * cnj F)\<close>, \<open>2 * Re (Fz * cnj F)\<close> and \<open>Re (dtF' * cnj dtF')\<close> with
  \<open>dtF' = 0.5 * dt * dtF + F\<close>; with averaging the mean of the previous value and the
  new one for the first four outputs, and for \<^verbatim>\<open>a2_delayed\<close> the mean of its previous value
  and \<open>Re (F * cnj F)\<close>, the new value of \<^verbatim>\<open>a2\<close>.
\<close>

lemma register_envelope_overwrite:
  fixes F Fr Ft Fz dtF :: complex and dt cos_t sin_t :: real and old :: envelope_values
  shows "register_envelope False dt cos_t sin_t (F, Fr, Ft, Fz, dtF) old =
     (Re (F * cnj F),
      2 * Re ((complex_of_real cos_t * Fr - complex_of_real sin_t * Ft) * cnj F),
      2 * Re ((complex_of_real sin_t * Fr + complex_of_real cos_t * Ft) * cnj F),
      2 * Re (Fz * cnj F),
      Re ((0.5 * complex_of_real dt * dtF + F) * cnj (0.5 * complex_of_real dt * dtF + F)))"
  by (cases old) (simp add: register_envelope_def Let_def algebra_simps)

lemma register_envelope_averaging:
  fixes F Fr Ft Fz dtF :: complex and dt cos_t sin_t p1 p2 p3 p4 p5 :: real
  shows "register_envelope True dt cos_t sin_t (F, Fr, Ft, Fz, dtF) (p1, p2, p3, p4, p5) =
     ((p1 + Re (F * cnj F)) / 2,
      (p2 + 2 * Re ((complex_of_real cos_t * Fr - complex_of_real sin_t * Ft) * cnj F)) / 2,
      (p3 + 2 * Re ((complex_of_real sin_t * Fr + complex_of_real cos_t * Ft) * cnj F)) / 2,
      (p4 + 2 * Re (Fz * cnj F)) / 2,
      (p5 + Re (F * cnj F)) / 2)"
  by (simp add: register_envelope_def Let_def)

text \<open>
  Claim C3 (the envelope kernels store \<open>I = F * cnj F\<close>, \<open>G = 2 * Re (F\<^sub>x\<^sub>y\<^sub>z * cnj F)\<close> and
  \<open>Id = dtF' * cnj dtF'\<close>, overwriting without averaging and taking the mean of the
  previous and the new value of each output with averaging) holds for the overwriting
  branch and for four of the five averaged outputs, and fails for \<^verbatim>\<open>a2_delayed\<close> with
  averaging. With \<open>F = 1\<close>, \<open>dtF = 2\<close>, \<open>dt = 1\<close>, on the axis and with previous values 0,
  the new delayed intensity is 4 (the value stored without averaging), so the mean the
  claim describes is 2; the averaging branch stores \<open>1 / 2\<close>, the mean of 0 and the
  intensity 1.
\<close>

theorem envelope_averaging_delayed_uses_intensity:
  "register_envelope False 1 1 0 (1, 0, 0, 0, 2) (0, 0, 0, 0, 0) = (1, 0, 0, 0, 4)
   \<and> register_envelope True 1 1 0 (1, 0, 0, 0, 2) (0, 0, 0, 0, 0) = (1 / 2, 0, 0, 0, 1 / 2)
   \<and> (1 / 2 :: real) \<noteq> (0 + 4) / 2"
  by (simp add: register_envelope_overwrite register_envelope_averaging)

text \<open>Reading one- and two-element tuples.\<close>

lemma tuple_item_simps:
  "tuple_item [u] 0 = Inr u"
  "tuple_item [u] 1 = Inl IndexError"
  "tuple_item [u, v] 0 = Inr u"
  "tuple_item [u, v] 1 = Inr v"
  by (simp_all add: tuple_item_def)

text \<open>
  Claim C2 (both envelope kernels pair the mode \<^verbatim>\<open>m_tuple[it]\<close> with the arrays at
  position \<open>it\<close> of the tuples, for any ordered tuple of modes) holds for the linear
  kernel and fails for the cubic one, which reads the tuples at index \<open>m\<close>, the value of
  the mode. For the mode tuple \<open>(1, 0)\<close> the linear kernel gives the mode 1 the arrays at
  position 0, where the mode 1 stands, and the cubic kernel gives it the arrays at
  position 1, those of the mode 0. For the mode tuple \<open>(1)\<close> and tuples of one array
  the linear kernel returns normally and the cubic kernel raises \<^verbatim>\<open>IndexError\<close> at the
  first particle, leaving the outputs as they were.
\<close>

theorem envelope_cubic_pairs_by_mode_value:
  fixes add_l :: linear_envelope_gather_for_mode
    and add_c :: cubic_envelope_gather_for_mode
    and A0 A1 R0 R1 T0 T1 Z0 Z1 D0 D1 :: array2d
    and F Fr Ft Fz dtF :: complex
    and cos_t sin_t :: real and s :: linear_stencil
    and ir_lowest iz_lowest nr nz :: int and Sr Sz :: "real list"
  shows "linear_envelope_mode add_l [A0, A1] [R0, R1] [T0, T1] [Z0, Z1] [D0, D1] [1, 0]
           cos_t sin_t s 0 (F, Fr, Ft, Fz, dtF)
         = Inr (add_l 1 F Fr Ft Fz dtF (complex_of_real cos_t - \<i> * complex_of_real sin_t)
                  A0 R0 T0 Z0 D0
                  (iz_lower s) (iz_upper s) (ir_lower s) (ir_upper s)
                  (Sz_lower s * Sr_lower s) (Sz_lower s * Sr_upper s)
                  (Sz_lower s * Sr_guard s) (Sz_upper s * Sr_lower s)
                  (Sz_upper s * Sr_upper s) (Sz_upper s * Sr_guard s))
    \<and> cubic_envelope_mode add_c [A0, A1] [R0, R1] [T0, T1] [Z0, Z1] [D0, D1]
           cos_t sin_t ir_lowest iz_lowest Sr Sz nr nz 1 (F, Fr, Ft, Fz, dtF)
         = Inr (add_c 1 F Fr Ft Fz dtF (complex_of_real cos_t - \<i> * complex_of_real sin_t)
                  A1 R1 T1 Z1 D1 ir_lowest iz_lowest Sr Sz nr nz)
    \<and> fst (gather_envelope_field_numba_linear add_l [0] [0] [0] 1 0 2 1 0 2 1
              [A0] [R0] [T0] [Z0] [D0] [1] [0] [0] [0] [0] [0] False) = Inr ()
    \<and> gather_envelope_field_numba_cubic add_c [0] [0] [0] 1 0 2 1 0 2 1
              [A0] [R0] [T0] [Z0] [D0] [1] [0] [0] [0] [0] [0] 1 [0, 1] False
         = (Inl IndexError, ([0], [0], [0], [0], [0]))"
proof -
  have lin: "linear_envelope_mode add_l [A0, A1] [R0, R1] [T0, T1] [Z0, Z1] [D0, D1] [1, 0]
           cos_t sin_t s 0 (F, Fr, Ft, Fz, dtF)
         = Inr (add_l 1 F Fr Ft Fz dtF (complex_of_real cos_t - \<i> * complex_of_real sin_t)
                  A0 R0 T0 Z0 D0
                  (iz_lower s) (iz_upper s) (ir_lower s) (ir_upper s)
                  (Sz_lower s * Sr_lower s) (Sz_lower s * Sr_upper s)
                  (Sz_lower s * Sr_guard s) (Sz_upper s * Sr_lower s)
                  (Sz_upper s * Sr_upper s) (Sz_upper s * Sr_guard s))"
    by (simp add: linear_envelope_mode_def mode_arrays_def tuple_item_simps)
  have cub: "cubic_envelope_mode add_c [A0, A1] [R0, R1] [T0, T1] [Z0, Z1] [D0, D1]
           cos_t sin_t ir_lowest iz_lowest Sr Sz nr nz 1 (F, Fr, Ft, Fz, dtF)
         = Inr (add_c 1 F Fr Ft Fz dtF (complex_of_real cos_t - \<i> * complex_of_real sin_t)
                  A1 R1 T1 Z1 D1 ir_lowest iz_lowest Sr Sz nr nz)"
    by (simp add: cubic_envelope_mode_def mode_arrays_def tuple_item_simps)
  have one: "[0..<length [1::int]] = [0]"
    by simp
  have klin: "fst (gather_envelope_field_numba_linear add_l [0] [0] [0] 1 0 2 1 0 2 1
              [A0] [R0] [T0] [Z0] [D0] [1] [0] [0] [0] [0] [0] False) = Inr ()"
    by (simp add: gather_envelope_field_numba_linear_def gather_envelope_linear_for_particle_def
        one linear_envelope_mode_def mode_arrays_def tuple_item_simps Let_def
        split: prod.splits sum.splits)
  have kcub: "gather_envelope_field_numba_cubic add_c [0] [0] [0] 1 0 2 1 0 2 1
              [A0] [R0] [T0] [Z0] [D0] [1] [0] [0] [0] [0] [0] 1 [0, 1] False
         = (Inl IndexError, ([0], [0], [0], [0], [0]))"
    by (simp add: gather_envelope_field_numba_cubic_def gather_envelope_cubic_for_particle_def
        chunk_schedule_def cubic_envelope_mode_def mode_arrays_def tuple_item_simps Let_def
        split: prod.splits)
  show ?thesis using lin cub klin kcub by simp
qed

section \<open>Construction of a grid\<close>

text \<open>
  The constructor computes; it checks nothing. The only exceptions it can raise are the
  divisions by zero, and the allocation of an array with a negative dimension in the two
  derived classes.
\<close>

lemma float_div_simps:
  "v \<noteq> 0 \<Longrightarrow> float_div u v = Inr (u / v)"
  "float_div u 0 = Inl ZeroDivisionError"
  by (simp_all add: float_div_def)

lemma cell_volume_centre:
  fixes dz' dr' :: real
  shows "cell_volume dz' dr' ((1 / 2 + of_nat j) * dr') = pi * dz' * dr'\<^sup>2 * (2 * of_nat j + 1)"
  by (simp add: cell_volume_def power2_eq_square algebra_simps)

lemma cell_volume_nonzero:
  fixes dz' dr' :: real
  assumes "dz' \<noteq> 0" "dr' \<noteq> 0"
  shows "cell_volume dz' dr' ((0.5 + of_nat j) * dr') \<noteq> 0"
proof -
  have "(0 :: real) < 2 * of_nat j + 1"
    by (simp add: add_nonneg_pos)
  then show ?thesis using assms by (simp add: cell_volume_centre)
qed

lemma InterpolationGrid_init_Inr:
  fixes Nz' Nr' m' :: int and zmin' zmax' rmax' :: real and use_cuda' :: bool
  assumes "Nz' \<noteq> 0" "Nr' \<noteq> 0" "zmax' \<noteq> zmin'" "rmax' \<noteq> 0"
  shows "InterpolationGrid_init Nz' Nr' m' zmin' zmax' rmax' use_cuda' =
     Inr \<lparr>Nz = Nz', Nr = Nr', m = m', dr = rmax' / of_int Nr',
          dz = (zmax' - zmin') / of_int Nz',
          invdr = 1 / (rmax' / of_int Nr'), invdz = 1 / ((zmax' - zmin') / of_int Nz'),
          rmin = 0, rmax = rmax', zmin = zmin', zmax = zmax',
          invvol = map (\<lambda>j. 1 / cell_volume ((zmax' - zmin') / of_int Nz') (rmax' / of_int Nr')
                               ((0.5 + of_nat j) * (rmax' / of_int Nr'))) [0..<nat Nr'],
          use_cuda = use_cuda',
          d_invvol = (if use_cuda' then
             Some (map (\<lambda>j. 1 / cell_volume ((zmax' - zmin') / of_int Nz') (rmax' / of_int Nr')
                               ((0.5 + of_nat j) * (rmax' / of_int Nr'))) [0..<nat Nr'])
             else None)\<rparr>"
  using assms by (simp add: InterpolationGrid_init_def float_div_def Let_def comp_def)

lemma InterpolationGrid_init_Inl:
  fixes Nz' Nr' m' :: int and zmin' zmax' rmax' :: real and use_cuda' :: bool
  assumes "Nz' = 0 \<or> Nr' = 0 \<or> zmax' = zmin' \<or> rmax' = 0"
  shows "InterpolationGrid_init Nz' Nr' m' zmin' zmax' rmax' use_cuda' = Inl ZeroDivisionError"
  using assms by (auto simp add: InterpolationGrid_init_def float_div_def Let_def)

lemma InterpolationGrid_init_isl:
  fixes Nz' Nr' m' :: int and zmin' zmax' rmax' :: real and use_cuda' :: bool
  shows "isl (InterpolationGrid_init Nz' Nr' m' zmin' zmax' rmax' use_cuda')
     \<longleftrightarrow> (Nz' = 0 \<or> Nr' = 0 \<or> zmax' = zmin' \<or> rmax' = 0)"
proof (cases "Nz' = 0 \<or> Nr' = 0 \<or> zmax' = zmin' \<or> rmax' = 0")
  case True
  then show ?thesis by (simp add: InterpolationGrid_init_Inl)
next
  case False
  then show ?thesis by (simp add: InterpolationGrid_init_Inr)
qed

lemma np_zeros_isl: "isl (np_zeros n k) \<longleftrightarrow> n < 0 \<or> k < 0"
  by (simp add: np_zeros_def)

lemma FieldInterpolationGrid_init_isl:
  fixes Nz' Nr' m' :: int and zmin' zmax' rmax' :: real and use_cuda' :: bool
  shows "isl (FieldInterpolationGrid_init Nz' Nr' m' zmin' zmax' rmax' use_cuda')
     \<longleftrightarrow> (Nz' \<le> 0 \<or> Nr' \<le> 0 \<or> zmax' = zmin' \<or> rmax' = 0)"
  using InterpolationGrid_init_isl[of Nz' Nr' m' zmin' zmax' rmax' use_cuda'] np_zeros_isl[of Nz' Nr']
  by (auto simp add: FieldInterpolationGrid_init_def split: sum.splits)

lemma EnvelopeInterpolationGrid_init_isl:
  fixes Nz' Nr' m' :: int and zmin' zmax' rmax' :: real and use_cuda' :: bool
  shows "isl (EnvelopeInterpolationGrid_init Nz' Nr' m' zmin' zmax' rmax' use_cuda')
     \<longleftrightarrow> (Nz' \<le> 0 \<or> Nr' \<le> 0 \<or> zmax' = zmin' \<or> rmax' = 0)"
  using InterpolationGrid_init_isl[of Nz' Nr' m' zmin' zmax' rmax' use_cuda'] np_zeros_isl[of Nz' Nr']
  by (auto simp add: EnvelopeInterpolationGrid_init_def split: sum.splits)

text \<open>
  Claim C6, amended. The construction of an \<^verbatim>\<open>InterpolationGrid\<close> fails exactly when
  \<open>Nz = 0\<close>, \<open>Nr = 0\<close>, \<open>zmax = zmin\<close> or \<open>rmax = 0\<close>, and then with \<^verbatim>\<open>ZeroDivisionError\<close>;
  the construction of a field grid or of an envelope grid fails exactly when \<open>Nz \<le> 0\<close>,
  \<open>Nr \<le> 0\<close>, \<open>zmax = zmin\<close> or \<open>rmax = 0\<close>. With every other argument the construction
  succeeds; in particular it succeeds whenever \<open>Nz > 0\<close>, \<open>Nr > 0\<close>, \<open>zmax > zmin\<close> and
  \<open>rmax > 0\<close>.
\<close>

theorem grid_construction_fails_only_on_zero:
  fixes Nz' Nr' m' :: int and zmin' zmax' rmax' :: real and use_cuda' :: bool
  shows "(InterpolationGrid_init Nz' Nr' m' zmin' zmax' rmax' use_cuda' = Inl ZeroDivisionError
           \<longleftrightarrow> (Nz' = 0 \<or> Nr' = 0 \<or> zmax' = zmin' \<or> rmax' = 0))
    \<and> (isl (InterpolationGrid_init Nz' Nr' m' zmin' zmax' rmax' use_cuda')
           \<longleftrightarrow> (Nz' = 0 \<or> Nr' = 0 \<or> zmax' = zmin' \<or> rmax' = 0))
    \<and> (isl (FieldInterpolationGrid_init Nz' Nr' m' zmin' zmax' rmax' use_cuda')
           \<longleftrightarrow> (Nz' \<le> 0 \<or> Nr' \<le> 0 \<or> zmax' = zmin' \<or> rmax' = 0))
    \<and> (isl (EnvelopeInterpolationGrid_init Nz' Nr' m' zmin' zmax' rmax' use_cuda')
           \<longleftrightarrow> (Nz' \<le> 0 \<or> Nr' \<le> 0 \<or> zmax' = zmin' \<or> rmax' = 0))
    \<and> (0 < Nz' \<and> 0 < Nr' \<and> zmin' < zmax' \<and> 0 < rmax' \<longrightarrow>
          \<not> isl (InterpolationGrid_init Nz' Nr' m' zmin' zmax' rmax' use_cuda')
        \<and> \<not> isl (FieldInterpolationGrid_init Nz' Nr' m' zmin' zmax' rmax' use_cuda')
        \<and> \<not> isl (EnvelopeInterpolationGrid_init Nz' Nr' m' zmin' zmax' rmax' use_cuda'))"
proof -
  have a: "InterpolationGrid_init Nz' Nr' m' zmin' zmax' rmax' use_cuda' = Inl ZeroDivisionError
           \<longleftrightarrow> (Nz' = 0 \<or> Nr' = 0 \<or> zmax' = zmin' \<or> rmax' = 0)"
  proof (cases "Nz' = 0 \<or> Nr' = 0 \<or> zmax' = zmin' \<or> rmax' = 0")
    case True
    then show ?thesis by (simp add: InterpolationGrid_init_Inl)
  next
    case False
    then show ?thesis by (simp add: InterpolationGrid_init_Inr)
  qed
  show ?thesis
    unfolding InterpolationGrid_init_isl FieldInterpolationGrid_init_isl
      EnvelopeInterpolationGrid_init_isl
    using a by auto
qed

theorem grid_construction_fails_only_on_zero_witness:
  "\<not> isl (InterpolationGrid_init 80 25 0 0 1 (4 / 100000) False)
   \<and> \<not> isl (FieldInterpolationGrid_init 80 25 0 0 1 (4 / 100000) False)
   \<and> \<not> isl (EnvelopeInterpolationGrid_init 80 25 0 0 1 (4 / 100000) False)"
  using grid_construction_fails_only_on_zero [of 80 25 0 0 1 "4 / 100000" False]
  by simp

text \<open>
  Arguments that violate \<open>zmax > zmin\<close>, \<open>rmax > 0\<close> or (for the base class) \<open>Nz > 0\<close> and for
  which the construction succeeds: a reversed box \<open>zmin = 1\<close>, \<open>zmax = 0\<close>, a negative
  \<open>rmax\<close>, and \<open>Nz = - 1\<close>.
\<close>

theorem grid_construction_reversed_box_counterexample:
  "\<not> isl (InterpolationGrid_init 1 1 0 1 0 1 False)
   \<and> \<not> isl (FieldInterpolationGrid_init 1 1 0 1 0 1 False)
   \<and> \<not> isl (InterpolationGrid_init 1 1 0 0 1 (- 1) False)
   \<and> \<not> isl (InterpolationGrid_init (- 1) 1 0 0 1 1 False)"
  by (simp add: InterpolationGrid_init_isl FieldInterpolationGrid_init_isl)

section \<open>Erasing and dividing by the volume\<close>

text \<open>
  What \<open>set_to_zero\<close> leaves, the names each method accepts, what a method does on any
  other name, and the grid after an accepted call, for both branches of each method.
\<close>

lemma set_to_zero_all_zero: "all_zero (set_to_zero F)"
  by (simp add: all_zero_def set_to_zero_def list_all_iff)

lemma set_to_zero_shape: "shape (set_to_zero F) = shape F"
  by (simp add: shape_def set_to_zero_def)

lemma times_row_vector_length: "length (times_row_vector F w) = length F"
  by (simp add: times_row_vector_def)

lemma erase_accepts:
  fixes g :: FieldInterpolationGrid
  shows "fst (erase name g) = Inr () \<longleftrightarrow> name \<in> {''E'', ''B'', ''J'', ''rho''}"
  by (auto simp add: erase_def cuda_erase_vector_def)

lemma erase_invalid:
  fixes g :: FieldInterpolationGrid
  shows "name \<notin> {''E'', ''B'', ''J'', ''rho''} \<Longrightarrow> erase name g = (Inl (invalid_fieldtype name), g)"
  by (simp add: erase_def)

lemma divide_by_volume_accepts:
  fixes g :: FieldInterpolationGrid
  assumes "use_cuda g \<longrightarrow> d_invvol g \<noteq> None"
  shows "fst (divide_by_volume name g) = Inr () \<longleftrightarrow> name \<in> {''J'', ''rho''}"
  using assms
  by (auto simp add: divide_by_volume_def cuda_divide_vector_by_volume_def split: option.splits)

lemma divide_by_volume_invalid:
  fixes g :: FieldInterpolationGrid
  shows "name \<notin> {''J'', ''rho''} \<Longrightarrow> divide_by_volume name g = (Inl (invalid_fieldtype name), g)"
  by (simp add: divide_by_volume_def)

lemma envelope_erase_accepts:
  fixes eg :: EnvelopeInterpolationGrid
  shows "fst (envelope_erase name eg) = Inr () \<longleftrightarrow> name \<in> {''chi'', ''chi_a''}"
  by (auto simp add: envelope_erase_def)

lemma envelope_erase_invalid:
  fixes eg :: EnvelopeInterpolationGrid
  shows "name \<notin> {''chi'', ''chi_a''} \<Longrightarrow>
    envelope_erase name eg = (Inl (invalid_fieldtype name), eg)"
  by (simp add: envelope_erase_def)

lemma divide_by_volume_and_e0_accepts:
  fixes eg :: EnvelopeInterpolationGrid
  assumes "use_cuda eg \<longrightarrow> d_invvol eg \<noteq> None"
  shows "fst (divide_by_volume_and_e0 epsilon_0 name eg) = Inr () \<longleftrightarrow> name = ''chi''"
  using assms
  by (auto simp add: divide_by_volume_and_e0_def split: option.splits)

lemma divide_by_volume_and_e0_invalid:
  fixes eg :: EnvelopeInterpolationGrid
  shows "name \<noteq> ''chi'' \<Longrightarrow>
    divide_by_volume_and_e0 epsilon_0 name eg = (Inl (invalid_fieldtype name), eg)"
  by (simp add: divide_by_volume_and_e0_def)

lemma erase_E:
  fixes g :: FieldInterpolationGrid
  shows "snd (erase ''E'' g) =
     g\<lparr>Er := set_to_zero (Er g), Et := set_to_zero (Et g), Ez := set_to_zero (Ez g)\<rparr>"
  by (simp add: erase_def cuda_erase_vector_def)

lemma erase_B:
  fixes g :: FieldInterpolationGrid
  shows "snd (erase ''B'' g) =
     g\<lparr>Br := set_to_zero (Br g), Bt := set_to_zero (Bt g), Bz := set_to_zero (Bz g)\<rparr>"
  by (simp add: erase_def cuda_erase_vector_def)

lemma erase_J:
  fixes g :: FieldInterpolationGrid
  shows "snd (erase ''J'' g) =
     g\<lparr>Jr := set_to_zero (Jr g), Jt := set_to_zero (Jt g), Jz := set_to_zero (Jz g)\<rparr>"
  by (simp add: erase_def cuda_erase_vector_def)

lemma erase_rho:
  fixes g :: FieldInterpolationGrid
  shows "snd (erase ''rho'' g) = g\<lparr>rho := set_to_zero (rho g)\<rparr>"
  by (simp add: erase_def cuda_erase_scalar_def)

lemma envelope_erase_chi:
  fixes eg :: EnvelopeInterpolationGrid
  shows "snd (envelope_erase ''chi'' eg) = eg\<lparr>chi := set_to_zero (chi eg)\<rparr>"
  by (simp add: envelope_erase_def cuda_erase_scalar_def)

lemma envelope_erase_chi_a:
  fixes eg :: EnvelopeInterpolationGrid
  shows "snd (envelope_erase ''chi_a'' eg) = eg\<lparr>chi_a := set_to_zero (chi_a eg)\<rparr>"
  by (simp add: envelope_erase_def cuda_erase_scalar_def)


lemma erase_truncate:
  fixes g :: FieldInterpolationGrid
  shows "InterpolationGrid.truncate (snd (erase name g)) = InterpolationGrid.truncate g"
  by (simp add: erase_def cuda_erase_vector_def InterpolationGrid.truncate_def)

lemma divide_by_volume_truncate:
  fixes g :: FieldInterpolationGrid
  shows "InterpolationGrid.truncate (snd (divide_by_volume name g)) = InterpolationGrid.truncate g"
  by (simp add: divide_by_volume_def cuda_divide_vector_by_volume_def
      InterpolationGrid.truncate_def split: option.splits)

lemma envelope_erase_truncate:
  fixes eg :: EnvelopeInterpolationGrid
  shows "InterpolationGrid.truncate (snd (envelope_erase name eg)) = InterpolationGrid.truncate eg"
  by (simp add: envelope_erase_def InterpolationGrid.truncate_def)

lemma divide_by_volume_and_e0_truncate:
  fixes eg :: EnvelopeInterpolationGrid
  shows "InterpolationGrid.truncate (snd (divide_by_volume_and_e0 epsilon_0 name eg))
     = InterpolationGrid.truncate eg"
  by (simp add: divide_by_volume_and_e0_def InterpolationGrid.truncate_def split: option.splits)

lemma divide_by_volume_J_frame:
  fixes g :: FieldInterpolationGrid
  shows "(snd (divide_by_volume ''J'' g))\<lparr>Jr := Jr g, Jt := Jt g, Jz := Jz g\<rparr> = g"
  by (simp add: divide_by_volume_def cuda_divide_vector_by_volume_def split: option.splits)

lemma divide_by_volume_rho_frame:
  fixes g :: FieldInterpolationGrid
  shows "(snd (divide_by_volume ''rho'' g))\<lparr>rho := rho g\<rparr> = g"
  by (simp add: divide_by_volume_def split: option.splits)

lemma divide_by_volume_and_e0_frame:
  fixes eg :: EnvelopeInterpolationGrid
  shows "(snd (divide_by_volume_and_e0 epsilon_0 ''chi'' eg))\<lparr>chi := chi eg\<rparr> = eg"
  by (simp add: divide_by_volume_and_e0_def split: option.splits)


text \<open>
  Claim C7, amended. On a field grid \<^verbatim>\<open>erase\<close> accepts exactly the group names \<open>E\<close>, \<open>B\<close>,
  \<open>J\<close>, \<open>rho\<close> and \<^verbatim>\<open>divide_by_volume\<close> exactly \<open>J\<close> and \<open>rho\<close>; on an envelope grid
  \<^verbatim>\<open>erase\<close> accepts exactly \<open>chi\<close> and \<open>chi_a\<close> and \<^verbatim>\<open>divide_by_volume_and_e0\<close> exactly \<open>chi\<close>
  (for a grid built with \<^verbatim>\<open>use_cuda\<close> the attribute \<^verbatim>\<open>d_invvol\<close> is present, as the
  constructor leaves it). A call with any other name raises the invalid-name
  \<^verbatim>\<open>ValueError\<close> and leaves the grid, with every array, unchanged; \<^verbatim>\<open>erase\<close> with an accepted
  name sets every entry of the arrays of that group to zero and keeps their shapes.
\<close>

theorem group_names_accepted:
  fixes g :: FieldInterpolationGrid and eg :: EnvelopeInterpolationGrid
    and name :: string and epsilon_0 :: real
  assumes cuda: "use_cuda g \<longrightarrow> d_invvol g \<noteq> None" "use_cuda eg \<longrightarrow> d_invvol eg \<noteq> None"
  shows "(fst (erase name g) = Inr () \<longleftrightarrow> name \<in> {''E'', ''B'', ''J'', ''rho''})
    \<and> (fst (divide_by_volume name g) = Inr () \<longleftrightarrow> name \<in> {''J'', ''rho''})
    \<and> (fst (envelope_erase name eg) = Inr () \<longleftrightarrow> name \<in> {''chi'', ''chi_a''})
    \<and> (fst (divide_by_volume_and_e0 epsilon_0 name eg) = Inr () \<longleftrightarrow> name = ''chi'')
    \<and> (name \<notin> {''E'', ''B'', ''J'', ''rho''} \<longrightarrow>
          erase name g = (Inl (invalid_fieldtype name), g))
    \<and> (name \<notin> {''J'', ''rho''} \<longrightarrow>
          divide_by_volume name g = (Inl (invalid_fieldtype name), g))
    \<and> (name \<notin> {''chi'', ''chi_a''} \<longrightarrow>
          envelope_erase name eg = (Inl (invalid_fieldtype name), eg))
    \<and> (name \<noteq> ''chi'' \<longrightarrow>
          divide_by_volume_and_e0 epsilon_0 name eg = (Inl (invalid_fieldtype name), eg))
    \<and> all_zero (Er (snd (erase ''E'' g))) \<and> shape (Er (snd (erase ''E'' g))) = shape (Er g)
    \<and> all_zero (Et (snd (erase ''E'' g))) \<and> shape (Et (snd (erase ''E'' g))) = shape (Et g)
    \<and> all_zero (Ez (snd (erase ''E'' g))) \<and> shape (Ez (snd (erase ''E'' g))) = shape (Ez g)
    \<and> all_zero (Br (snd (erase ''B'' g))) \<and> shape (Br (snd (erase ''B'' g))) = shape (Br g)
    \<and> all_zero (Bt (snd (erase ''B'' g))) \<and> shape (Bt (snd (erase ''B'' g))) = shape (Bt g)
    \<and> all_zero (Bz (snd (erase ''B'' g))) \<and> shape (Bz (snd (erase ''B'' g))) = shape (Bz g)
    \<and> all_zero (Jr (snd (erase ''J'' g))) \<and> shape (Jr (snd (erase ''J'' g))) = shape (Jr g)
    \<and> all_zero (Jt (snd (erase ''J'' g))) \<and> shape (Jt (snd (erase ''J'' g))) = shape (Jt g)
    \<and> all_zero (Jz (snd (erase ''J'' g))) \<and> shape (Jz (snd (erase ''J'' g))) = shape (Jz g)
    \<and> all_zero (rho (snd (erase ''rho'' g))) \<and> shape (rho (snd (erase ''rho'' g))) = shape (rho g)
    \<and> all_zero (chi (snd (envelope_erase ''chi'' eg)))
    \<and> shape (chi (snd (envelope_erase ''chi'' eg))) = shape (chi eg)
    \<and> all_zero (chi_a (snd (envelope_erase ''chi_a'' eg)))
    \<and> shape (chi_a (snd (envelope_erase ''chi_a'' eg))) = shape (chi_a eg)"
proof -
  note accepts = erase_accepts[of name g] divide_by_volume_accepts[OF cuda(1), of name]
    envelope_erase_accepts[of name eg]
    divide_by_volume_and_e0_accepts[OF cuda(2), of epsilon_0 name]
  have invalid:
    "name \<notin> {''E'', ''B'', ''J'', ''rho''} \<longrightarrow> erase name g = (Inl (invalid_fieldtype name), g)"
    "name \<notin> {''J'', ''rho''} \<longrightarrow> divide_by_volume name g = (Inl (invalid_fieldtype name), g)"
    "name \<notin> {''chi'', ''chi_a''} \<longrightarrow> envelope_erase name eg = (Inl (invalid_fieldtype name), eg)"
    "name \<noteq> ''chi'' \<longrightarrow>
       divide_by_volume_and_e0 epsilon_0 name eg = (Inl (invalid_fieldtype name), eg)"
    using erase_invalid[of name g] divide_by_volume_invalid[of name g]
      envelope_erase_invalid[of name eg] divide_by_volume_and_e0_invalid[of name epsilon_0 eg]
    by blast+
  have zero:
    "all_zero (Er (snd (erase ''E'' g))) \<and> shape (Er (snd (erase ''E'' g))) = shape (Er g)"
    "all_zero (Et (snd (erase ''E'' g))) \<and> shape (Et (snd (erase ''E'' g))) = shape (Et g)"
    "all_zero (Ez (snd (erase ''E'' g))) \<and> shape (Ez (snd (erase ''E'' g))) = shape (Ez g)"
    "all_zero (Br (snd (erase ''B'' g))) \<and> shape (Br (snd (erase ''B'' g))) = shape (Br g)"
    "all_zero (Bt (snd (erase ''B'' g))) \<and> shape (Bt (snd (erase ''B'' g))) = shape (Bt g)"
    "all_zero (Bz (snd (erase ''B'' g))) \<and> shape (Bz (snd (erase ''B'' g))) = shape (Bz g)"
    "all_zero (Jr (snd (erase ''J'' g))) \<and> shape (Jr (snd (erase ''J'' g))) = shape (Jr g)"
    "all_zero (Jt (snd (erase ''J'' g))) \<and> shape (Jt (snd (erase ''J'' g))) = shape (Jt g)"
    "all_zero (Jz (snd (erase ''J'' g))) \<and> shape (Jz (snd (erase ''J'' g))) = shape (Jz g)"
    "all_zero (rho (snd (erase ''rho'' g))) \<and> shape (rho (snd (erase ''rho'' g))) = shape (rho g)"
    "all_zero (chi (snd (envelope_erase ''chi'' eg)))
       \<and> shape (chi (snd (envelope_erase ''chi'' eg))) = shape (chi eg)"
    "all_zero (chi_a (snd (envelope_erase ''chi_a'' eg)))
       \<and> shape (chi_a (snd (envelope_erase ''chi_a'' eg))) = shape (chi_a eg)"
    by (simp_all add: erase_E erase_B erase_J erase_rho envelope_erase_chi envelope_erase_chi_a
        set_to_zero_all_zero set_to_zero_shape)
  show ?thesis
    using accepts invalid zero
    apply -
    apply (elim conjE)
    apply (intro conjI)
    apply assumption+
    done
qed

theorem group_names_accepted_witness:
  "erase ''T'' sample_field_grid
     = (Inl (ValueError ''Invalid string for fieldtype: T''), sample_field_grid)
   \<and> divide_by_volume ''T'' sample_field_grid
     = (Inl (ValueError ''Invalid string for fieldtype: T''), sample_field_grid)
   \<and> envelope_erase ''T'' sample_envelope_grid
     = (Inl (ValueError ''Invalid string for fieldtype: T''), sample_envelope_grid)
   \<and> divide_by_volume_and_e0 1 ''T'' sample_envelope_grid
     = (Inl (ValueError ''Invalid string for fieldtype: T''), sample_envelope_grid)
   \<and> all_zero (Er (snd (erase ''E'' sample_field_grid)))
   \<and> shape (Er (snd (erase ''E'' sample_field_grid))) = [2, 2]
   \<and> all_zero (chi (snd (envelope_erase ''chi'' sample_envelope_grid)))"
proof -
  have cuda: "use_cuda sample_field_grid \<longrightarrow> d_invvol sample_field_grid \<noteq> None"
    "use_cuda sample_envelope_grid \<longrightarrow> d_invvol sample_envelope_grid \<noteq> None"
    by (simp_all add: sample_field_grid_def sample_envelope_grid_def)
  have name: "''T'' \<notin> {''E'', ''B'', ''J'', ''rho''}" "''T'' \<notin> {''J'', ''rho''}"
    "''T'' \<notin> {''chi'', ''chi_a''}" "''T'' \<noteq> ''chi''"
    by simp_all
  have sh: "shape (Er sample_field_grid) = [2, 2]"
    by (simp add: sample_field_grid_def shape_def)
  have msg: "invalid_fieldtype ''T'' = ValueError ''Invalid string for fieldtype: T''"
    by (simp add: invalid_fieldtype_def)
  show ?thesis
    using group_names_accepted[OF cuda, of "''T''" 1] name sh msg by simp
qed

text \<open>
  The claim as first stated gives \<^verbatim>\<open>divide_by_volume\<close> the names \<open>E\<close> and \<open>B\<close> as well; the
  method rejects both.
\<close>

theorem divide_by_volume_rejects_E_counterexample:
  "divide_by_volume ''E'' sample_field_grid
     = (Inl (ValueError ''Invalid string for fieldtype: E''), sample_field_grid)
   \<and> divide_by_volume ''B'' sample_field_grid
     = (Inl (ValueError ''Invalid string for fieldtype: B''), sample_field_grid)"
  by (simp add: divide_by_volume_def invalid_fieldtype_def sample_field_grid_def)

text \<open>
  Claim C10. \<^verbatim>\<open>erase\<close> and the divisions by the volume, called with an accepted group name,
  change only the arrays of that group: putting the previous arrays of the group back
  into the grid after the call gives the grid before the call, so every other array and
  all the metadata are unchanged. For every name, accepted or not, the part of the grid
  inherited from \<^verbatim>\<open>InterpolationGrid\<close> (\<open>Nz\<close>, \<open>Nr\<close>, \<open>dz\<close>, \<open>dr\<close>, \<open>invvol\<close>, \<open>zmin\<close>, \<open>zmax\<close>,
  \<open>rmax\<close>, ...) is unchanged. In particular erasing \<open>J\<close> leaves \<open>Er\<close>, \<open>Et\<close>, \<open>Ez\<close>, \<open>Br\<close>,
  \<open>Bt\<close>, \<open>Bz\<close> and \<open>rho\<close> as they were, and dividing \<open>chi\<close> leaves \<open>a\<close>, \<open>dta\<close>,
  \<open>grad_a_r\<close>, \<open>grad_a_t\<close>, \<open>grad_a_z\<close> and \<open>chi_a\<close> as they were.
\<close>

theorem group_operations_frame:
  fixes g :: FieldInterpolationGrid and eg :: EnvelopeInterpolationGrid
    and name :: string and epsilon_0 :: real
  shows "(snd (erase ''E'' g))\<lparr>Er := Er g, Et := Et g, Ez := Ez g\<rparr> = g
    \<and> (snd (erase ''B'' g))\<lparr>Br := Br g, Bt := Bt g, Bz := Bz g\<rparr> = g
    \<and> (snd (erase ''J'' g))\<lparr>Jr := Jr g, Jt := Jt g, Jz := Jz g\<rparr> = g
    \<and> (snd (erase ''rho'' g))\<lparr>rho := rho g\<rparr> = g
    \<and> (snd (divide_by_volume ''J'' g))\<lparr>Jr := Jr g, Jt := Jt g, Jz := Jz g\<rparr> = g
    \<and> (snd (divide_by_volume ''rho'' g))\<lparr>rho := rho g\<rparr> = g
    \<and> (snd (envelope_erase ''chi'' eg))\<lparr>chi := chi eg\<rparr> = eg
    \<and> (snd (envelope_erase ''chi_a'' eg))\<lparr>chi_a := chi_a eg\<rparr> = eg
    \<and> (snd (divide_by_volume_and_e0 epsilon_0 ''chi'' eg))\<lparr>chi := chi eg\<rparr> = eg
    \<and> InterpolationGrid.truncate (snd (erase name g)) = InterpolationGrid.truncate g
    \<and> InterpolationGrid.truncate (snd (divide_by_volume name g)) = InterpolationGrid.truncate g
    \<and> InterpolationGrid.truncate (snd (envelope_erase name eg)) = InterpolationGrid.truncate eg
    \<and> InterpolationGrid.truncate (snd (divide_by_volume_and_e0 epsilon_0 name eg))
        = InterpolationGrid.truncate eg
    \<and> Er (snd (erase ''J'' g)) = Er g \<and> Et (snd (erase ''J'' g)) = Et g
    \<and> Ez (snd (erase ''J'' g)) = Ez g \<and> Br (snd (erase ''J'' g)) = Br g
    \<and> Bt (snd (erase ''J'' g)) = Bt g \<and> Bz (snd (erase ''J'' g)) = Bz g
    \<and> rho (snd (erase ''J'' g)) = rho g
    \<and> a (snd (divide_by_volume_and_e0 epsilon_0 ''chi'' eg)) = a eg
    \<and> dta (snd (divide_by_volume_and_e0 epsilon_0 ''chi'' eg)) = dta eg
    \<and> grad_a_r (snd (divide_by_volume_and_e0 epsilon_0 ''chi'' eg)) = grad_a_r eg
    \<and> grad_a_t (snd (divide_by_volume_and_e0 epsilon_0 ''chi'' eg)) = grad_a_t eg
    \<and> grad_a_z (snd (divide_by_volume_and_e0 epsilon_0 ''chi'' eg)) = grad_a_z eg
    \<and> chi_a (snd (divide_by_volume_and_e0 epsilon_0 ''chi'' eg)) = chi_a eg"
proof -
  have others: "a (snd (divide_by_volume_and_e0 epsilon_0 ''chi'' eg)) = a eg"
    "dta (snd (divide_by_volume_and_e0 epsilon_0 ''chi'' eg)) = dta eg"
    "grad_a_r (snd (divide_by_volume_and_e0 epsilon_0 ''chi'' eg)) = grad_a_r eg"
    "grad_a_t (snd (divide_by_volume_and_e0 epsilon_0 ''chi'' eg)) = grad_a_t eg"
    "grad_a_z (snd (divide_by_volume_and_e0 epsilon_0 ''chi'' eg)) = grad_a_z eg"
    "chi_a (snd (divide_by_volume_and_e0 epsilon_0 ''chi'' eg)) = chi_a eg"
    by (simp_all add: divide_by_volume_and_e0_def split: option.splits)
  show ?thesis
  using others
  by (simp add: erase_E erase_B erase_J erase_rho envelope_erase_chi envelope_erase_chi_a
      divide_by_volume_J_frame divide_by_volume_rho_frame divide_by_volume_and_e0_frame
      erase_truncate divide_by_volume_truncate envelope_erase_truncate
      divide_by_volume_and_e0_truncate)
qed

section \<open>Geometry of a grid\<close>

text \<open>
  The volume of the shell of radial cell \<open>j\<close> is \<open>pi * dz * dr\<^sup>2 * (2 * j + 1)\<close>, and the
  first \<open>n\<close> odd numbers sum to \<open>n\<^sup>2\<close>: the shells of one longitudinal slice fill the
  disc of radius \<open>n * dr\<close> and thickness \<open>dz\<close>. The attributes of a constructed grid are
  read off the constructor.
\<close>

lemma sum_odd_numbers: "(\<Sum>j\<leftarrow>[0..<n]. 2 * real j + 1) = (real n)\<^sup>2"
  by (induction n) (simp_all add: power2_eq_square algebra_simps)

lemma shell_volumes_sum:
  fixes dz' dr' :: real
  shows "(\<Sum>j\<leftarrow>[0..<n]. cell_volume dz' dr' ((1 / 2 + real j) * dr'))
           = pi * dz' * (real n * dr')\<^sup>2"
proof -
  have "(\<Sum>j\<leftarrow>[0..<n]. cell_volume dz' dr' ((1 / 2 + real j) * dr'))
          = (\<Sum>j\<leftarrow>[0..<n]. (pi * dz' * dr'\<^sup>2) * (2 * real j + 1))"
    by (simp add: cell_volume_centre)
  also have "\<dots> = (pi * dz' * dr'\<^sup>2) * (\<Sum>j\<leftarrow>[0..<n]. 2 * real j + 1)"
    by (simp only: sum_list_const_mult)
  also have "\<dots> = pi * dz' * (real n * dr')\<^sup>2"
    by (simp add: sum_odd_numbers power2_eq_square)
  finally show ?thesis .
qed

lemma InterpolationGrid_init_fields:
  fixes Nz' Nr' m' :: int and zmin' zmax' rmax' :: real and use_cuda' :: bool
    and g :: InterpolationGrid
  assumes valid: "0 < Nz'" "0 < Nr'" "zmin' < zmax'" "0 < rmax'"
    and built: "InterpolationGrid_init Nz' Nr' m' zmin' zmax' rmax' use_cuda' = Inr g"
  shows "Nz g = Nz'" "Nr g = Nr'" "dz g = (zmax' - zmin') / of_int Nz'"
    "dr g = rmax' / of_int Nr'" "zmin g = zmin'" "zmax g = zmax'" "rmin g = 0" "rmax g = rmax'"
    "invvol g = map (\<lambda>j. 1 / cell_volume (dz g) (dr g) ((1 / 2 + of_nat j) * dr g)) [0..<nat Nr']"
    "invdz g = 1 / dz g" "invdr g = 1 / dr g"
proof -
  have nz: "Nz' \<noteq> 0" "Nr' \<noteq> 0" "zmax' \<noteq> zmin'" "rmax' \<noteq> 0" using valid by auto
  note g = built[unfolded InterpolationGrid_init_Inr[OF nz], simplified, symmetric]
  show "Nz g = Nz'" "Nr g = Nr'" "dz g = (zmax' - zmin') / of_int Nz'"
    "dr g = rmax' / of_int Nr'" "zmin g = zmin'" "zmax g = zmax'" "rmin g = 0" "rmax g = rmax'"
    "invvol g = map (\<lambda>j. 1 / cell_volume (dz g) (dr g) ((1 / 2 + of_nat j) * dr g)) [0..<nat Nr']"
    "invdz g = 1 / dz g" "invdr g = 1 / dr g"
    by (simp_all add: g)
qed


text \<open>
  Claim C8, amended. For every grid \<open>g\<close> constructed with \<open>Nz > 0\<close>, \<open>Nr > 0\<close>,
  \<open>zmax > zmin\<close> and \<open>rmax > 0\<close>: the cell centres are \<open>z(i) = zmin + (i + 0.5) * dz\<close> and
  \<open>r(j) = (j + 0.5) * dr\<close> with \<open>dz = (zmax - zmin) / Nz\<close> and \<open>dr = rmax / Nr\<close>; they lie
  strictly inside \<open>[zmin, zmax]\<close> and \<open>[0, rmax]\<close>, and consecutive centres are \<open>dz\<close> and \<open>dr\<close>
  apart; every \<open>invvol[j]\<close> is strictly positive and is the inverse of the shell volume
  \<open>pi * dz * ((r\<^sub>j + dr/2)\<^sup>2 - (r\<^sub>j - dr/2)\<^sup>2)\<close>; the \<open>Nr\<close> shell volumes \<open>1 / invvol[j]\<close> sum
  to \<open>pi * rmax\<^sup>2 * dz\<close>, the volume of one longitudinal slice, and \<open>Nz\<close> times that sum
  is \<open>pi * rmax\<^sup>2 * (zmax - zmin)\<close>. Every erase or divide operation on a field or envelope
  grid with this geometry, with any name, leaves the geometry as it is.
\<close>

theorem grid_geometry_invariant:
  fixes Nz' Nr' m' :: int and zmin' zmax' rmax' epsilon_0 :: real and use_cuda' :: bool
    and g :: InterpolationGrid and fg :: FieldInterpolationGrid
    and eg :: EnvelopeInterpolationGrid and i j :: nat and name :: string
  assumes valid: "0 < Nz'" "0 < Nr'" "zmin' < zmax'" "0 < rmax'"
    and built: "InterpolationGrid_init Nz' Nr' m' zmin' zmax' rmax' use_cuda' = Inr g"
    and cells: "i < nat Nz'" "j < nat Nr'"
    and base: "InterpolationGrid.truncate fg = g" "InterpolationGrid.truncate eg = g"
  shows "length (z g) = nat Nz' \<and> length (r g) = nat Nr' \<and> length (invvol g) = nat Nr'
    \<and> dz g = (zmax' - zmin') / of_int Nz' \<and> dr g = rmax' / of_int Nr'
    \<and> z g ! i = zmin' + (of_nat i + 0.5) * dz g \<and> r g ! j = (of_nat j + 0.5) * dr g
    \<and> zmin' < z g ! i \<and> z g ! i < zmax' \<and> 0 < r g ! j \<and> r g ! j < rmax'
    \<and> (Suc i < nat Nz' \<longrightarrow> z g ! Suc i - z g ! i = dz g)
    \<and> (Suc j < nat Nr' \<longrightarrow> r g ! Suc j - r g ! j = dr g)
    \<and> 0 < invvol g ! j
    \<and> invvol g ! j = 1 / (pi * dz g * ((r g ! j + dr g / 2)\<^sup>2 - (r g ! j - dr g / 2)\<^sup>2))
    \<and> (\<Sum>v\<leftarrow>invvol g. 1 / v) = pi * rmax'\<^sup>2 * dz g
    \<and> of_int Nz' * (\<Sum>v\<leftarrow>invvol g. 1 / v) = pi * rmax'\<^sup>2 * (zmax' - zmin')
    \<and> InterpolationGrid.truncate (snd (erase name fg)) = g
    \<and> InterpolationGrid.truncate (snd (divide_by_volume name fg)) = g
    \<and> InterpolationGrid.truncate (snd (envelope_erase name eg)) = g
    \<and> InterpolationGrid.truncate (snd (divide_by_volume_and_e0 epsilon_0 name eg)) = g"
proof -
  note f = InterpolationGrid_init_fields[OF valid built]
  have dzpos: "0 < dz g" and drpos: "0 < dr g"
    using valid by (simp_all add: f)
  have nz: "real (nat Nz') * dz g = zmax' - zmin'" and nr: "real (nat Nr') * dr g = rmax'"
    using valid by (simp_all add: f)
  have len: "length (z g) = nat Nz' \<and> length (r g) = nat Nr' \<and> length (invvol g) = nat Nr'"
    by (simp add: z_def r_def f)
  have zi: "z g ! i = zmin' + (of_nat i + 0.5) * dz g"
    using cells(1) by (simp add: z_def f add.commute)
  have rj: "r g ! j = (of_nat j + 0.5) * dr g"
    using cells(2) by (simp add: r_def f add.commute)
  have zin: "zmin' < z g ! i \<and> z g ! i < zmax'"
  proof -
    have "real i + 0.5 < real (nat Nz')" using cells(1) by simp
    then have "(real i + 0.5) * dz g < real (nat Nz') * dz g"
      using dzpos by (simp only: mult_less_cancel_right_pos)
    moreover have "0 < (real i + 0.5) * dz g" using dzpos by simp
    ultimately show ?thesis unfolding zi nz by simp
  qed
  have rin: "0 < r g ! j \<and> r g ! j < rmax'"
  proof -
    have "real j + 0.5 < real (nat Nr')" using cells(2) by simp
    then have "(real j + 0.5) * dr g < real (nat Nr') * dr g"
      using drpos by (simp only: mult_less_cancel_right_pos)
    moreover have "0 < (real j + 0.5) * dr g" using drpos by simp
    ultimately show ?thesis unfolding rj nr by simp
  qed
  have zstep: "z g ! Suc i - z g ! i = dz g" if "Suc i < nat Nz'"
    using that by (simp add: z_def f(1,5) algebra_simps)
  have rstep: "r g ! Suc j - r g ! j = dr g" if "Suc j < nat Nr'"
    using that by (simp add: r_def f(2,7) algebra_simps)
  have vol: "cell_volume (dz g) (dr g) ((1 / 2 + of_nat j) * dr g)
      = pi * dz g * (dr g)\<^sup>2 * (2 * of_nat j + 1)"
    by (rule cell_volume_centre)
  have volpos: "0 < cell_volume (dz g) (dr g) ((1 / 2 + of_nat j) * dr g)"
    unfolding vol using dzpos drpos by (simp add: add_nonneg_pos)
  have inv: "invvol g ! j = 1 / cell_volume (dz g) (dr g) ((1 / 2 + of_nat j) * dr g)"
    using cells(2) by (subst f(9)) simp
  have invpos: "0 < invvol g ! j"
    unfolding inv using volpos by simp
  have invform: "invvol g ! j
      = 1 / (pi * dz g * ((r g ! j + dr g / 2)\<^sup>2 - (r g ! j - dr g / 2)\<^sup>2))"
    unfolding inv rj by (simp add: cell_volume_def add.commute)
  have "(\<Sum>v\<leftarrow>invvol g. 1 / v)
      = (\<Sum>j\<leftarrow>[0..<nat Nr']. cell_volume (dz g) (dr g) ((1 / 2 + real j) * dr g))"
    by (subst f(9)) (simp add: comp_def)
  also have "\<dots> = pi * dz g * (real (nat Nr') * dr g)\<^sup>2"
    by (rule shell_volumes_sum)
  finally have total: "(\<Sum>v\<leftarrow>invvol g. 1 / v) = pi * rmax'\<^sup>2 * dz g"
    unfolding nr by simp
  have box: "of_int Nz' * (\<Sum>v\<leftarrow>invvol g. 1 / v) = pi * rmax'\<^sup>2 * (zmax' - zmin')"
    unfolding total using valid(1) by (simp add: f)
  have kept: "InterpolationGrid.truncate (snd (erase name fg)) = g"
    "InterpolationGrid.truncate (snd (divide_by_volume name fg)) = g"
    "InterpolationGrid.truncate (snd (envelope_erase name eg)) = g"
    "InterpolationGrid.truncate (snd (divide_by_volume_and_e0 epsilon_0 name eg)) = g"
    by (simp_all add: erase_truncate divide_by_volume_truncate envelope_erase_truncate
        divide_by_volume_and_e0_truncate base)
  show ?thesis
    using len f(3,4) zi rj zin rin zstep rstep invpos invform total box kept
    apply -
    apply (elim conjE)
    apply (intro conjI impI)
    apply assumption+
    done
qed


text \<open>The sample grids have the geometry the constructor builds on the unit box.\<close>

lemma sample_grid_built:
  "InterpolationGrid_init 2 2 0 0 1 1 False = Inr (InterpolationGrid.truncate sample_field_grid)"
  "InterpolationGrid.truncate sample_envelope_grid = InterpolationGrid.truncate sample_field_grid"
  by (simp_all add: InterpolationGrid_init_Inr sample_field_grid_def sample_envelope_grid_def
      InterpolationGrid.truncate_def cell_volume_def upt_rec power2_eq_square)

theorem grid_geometry_invariant_witness:
  "InterpolationGrid_init 2 2 0 0 1 1 False = Inr (InterpolationGrid.truncate sample_field_grid)
   \<and> dz (InterpolationGrid.truncate sample_field_grid) = 1 / 2 \<and> dr (InterpolationGrid.truncate sample_field_grid) = 1 / 2
   \<and> z (InterpolationGrid.truncate sample_field_grid) ! 0 = 0 + (of_nat (0::nat) + 0.5) * dz (InterpolationGrid.truncate sample_field_grid)
   \<and> r (InterpolationGrid.truncate sample_field_grid) ! 0 = (of_nat (0::nat) + 0.5) * dr (InterpolationGrid.truncate sample_field_grid)
   \<and> 0 < z (InterpolationGrid.truncate sample_field_grid) ! 0 \<and> z (InterpolationGrid.truncate sample_field_grid) ! 0 < 1 \<and> 0 < r (InterpolationGrid.truncate sample_field_grid) ! 0 \<and> r (InterpolationGrid.truncate sample_field_grid) ! 0 < 1
   \<and> z (InterpolationGrid.truncate sample_field_grid) ! Suc 0 - z (InterpolationGrid.truncate sample_field_grid) ! 0 = dz (InterpolationGrid.truncate sample_field_grid)
   \<and> r (InterpolationGrid.truncate sample_field_grid) ! Suc 0 - r (InterpolationGrid.truncate sample_field_grid) ! 0 = dr (InterpolationGrid.truncate sample_field_grid)
   \<and> 0 < invvol (InterpolationGrid.truncate sample_field_grid) ! 0
   \<and> (\<Sum>v\<leftarrow>invvol (InterpolationGrid.truncate sample_field_grid). 1 / v) = pi * 1\<^sup>2 * dz (InterpolationGrid.truncate sample_field_grid)
   \<and> of_int 2 * (\<Sum>v\<leftarrow>invvol (InterpolationGrid.truncate sample_field_grid). 1 / v) = pi * 1\<^sup>2 * (1 - 0)
   \<and> InterpolationGrid.truncate (snd (erase ''J'' sample_field_grid)) = InterpolationGrid.truncate sample_field_grid
   \<and> InterpolationGrid.truncate (snd (divide_by_volume ''J'' sample_field_grid)) = InterpolationGrid.truncate sample_field_grid
   \<and> InterpolationGrid.truncate (snd (envelope_erase ''J'' sample_envelope_grid)) = InterpolationGrid.truncate sample_field_grid
   \<and> InterpolationGrid.truncate (snd (divide_by_volume_and_e0 1 ''J'' sample_envelope_grid)) = InterpolationGrid.truncate sample_field_grid"
proof -
  have valid: "(0::int) < 2" "(0::int) < 2" "(0::real) < 1" "(0::real) < 1" by simp_all
  have cells: "(0::nat) < nat 2" "(0::nat) < nat 2" by simp_all
  have steps: "Suc 0 < nat 2" by simp
  have sel: "dz (InterpolationGrid.truncate sample_field_grid) = 1 / 2" "dr (InterpolationGrid.truncate sample_field_grid) = 1 / 2"
    by (simp_all add: sample_field_grid_def InterpolationGrid.truncate_def)
  note t = grid_geometry_invariant[OF valid sample_grid_built(1) cells refl sample_grid_built(2),
      of "''J''" 1]
  show ?thesis
    using t steps sel sample_grid_built(1)
    apply -
    apply (elim conjE impE)
      apply (assumption | intro conjI)+
    done
qed

text \<open>
  The claim as first stated makes the shell volumes sum to \<open>pi * rmax\<^sup>2 * (zmax - zmin)\<close>.
  On the grid with two longitudinal cells on the unit box the entries of \<open>invvol\<close> are
  the inverses of \<open>pi / 8\<close> and \<open>3 * pi / 8\<close>, which sum to \<open>pi / 2\<close>, not to \<open>pi\<close>.
\<close>

theorem shell_volumes_sum_counterexample:
  "InterpolationGrid_init 2 2 0 0 1 1 False = Inr (InterpolationGrid.truncate sample_field_grid)
   \<and> (\<Sum>v\<leftarrow>invvol (InterpolationGrid.truncate sample_field_grid). 1 / v) = pi / 2
   \<and> pi / 2 \<noteq> pi * 1\<^sup>2 * (1 - 0)"
  by (simp add: sample_grid_built(1) sample_field_grid_def InterpolationGrid.truncate_def)

section \<open>Gathering a uniform field\<close>

text \<open>
  The kernels with the inline functions modelled from the spec, on grid arrays that are
  uniform. Inside the box and away from the axis every support index of a stencil is
  inside the grid and the guard weight is zero, so the interpolation of a uniform array
  is its constant, by the partition of unity; on the axis the regular weights of the
  linear stencil sum to one half and the guard bucket holds the other half.
\<close>

lemma array_item_uniform:
  fixes Nz Nr :: int
  assumes "0 \<le> iz" "iz < Nz" "0 \<le> ir" "ir < Nr"
  shows "array_item (uniform_array Nz Nr c) iz ir = c"
  using assms by (simp add: array_item_def uniform_array_def Let_def)

lemma z_floor_box:
  fixes dz' invdz zmin zj :: real and Nz :: int
  assumes "0 < dz'" "invdz = 1 / dz'" "zmin \<le> zj" "zj \<le> zmin + of_int Nz * dz'"
  shows "- 1 \<le> \<lfloor>invdz * (zj - zmin) - 0.5\<rfloor>" "\<lfloor>invdz * (zj - zmin) - 0.5\<rfloor> \<le> Nz - 1"
proof -
  have a: "0 \<le> (zj - zmin) / dz'" using assms by simp
  have b: "(zj - zmin) / dz' \<le> of_int Nz" using assms by (simp add: field_simps)
  have e: "invdz * (zj - zmin) = (zj - zmin) / dz'" using assms by simp
  show "- 1 \<le> \<lfloor>invdz * (zj - zmin) - 0.5\<rfloor>" unfolding e using a by linarith
  show "\<lfloor>invdz * (zj - zmin) - 0.5\<rfloor> \<le> Nz - 1" unfolding e using b by linarith
qed

lemma linear_weights_S:
  fixes invdz zmin invdr rmin rj zj :: real
  shows "Sr_lower (linear_weights invdz zmin invdr rmin rj zj)
           + Sr_upper (linear_weights invdz zmin invdr rmin rj zj) = 1"
    "Sz_lower (linear_weights invdz zmin invdr rmin rj zj)
           + Sz_upper (linear_weights invdz zmin invdr rmin rj zj) = 1"
  by (simp_all add: linear_weights_def Let_def)

lemma linear_shape_off_axis:
  fixes dz' invdz zmin zj invdr rmin rj :: real and Nz Nr :: int
  assumes grid: "2 \<le> Nz" "1 \<le> Nr" "0 < dz'" "invdz = 1 / dz'"
    and box: "zmin \<le> zj" "zj \<le> zmin + of_int Nz * dz'"
    and off: "1 / 2 \<le> invdr * (rj - rmin)"
  defines "s \<equiv> linear_shape invdz zmin Nz invdr rmin Nr rj zj"
  shows "0 \<le> ir_lower s" "ir_lower s < Nr" "0 \<le> ir_upper s" "ir_upper s < Nr"
    "0 \<le> iz_lower s" "iz_lower s < Nz" "0 \<le> iz_upper s" "iz_upper s < Nz"
    "Sr_guard s = 0" "Sr_lower s + Sr_upper s = 1" "Sz_lower s + Sz_upper s = 1"
proof -
  let ?s0 = "linear_weights invdz zmin invdr rmin rj zj"
  have s: "s = linear_boundaries Nz Nr ?s0" by (simp add: s_def linear_shape_def)
  have zb: "- 1 \<le> iz_lower ?s0" "iz_lower ?s0 \<le> Nz - 1"
    using z_floor_box[OF grid(3,4) box] by (simp_all add: linear_weights_sel)
  have rb: "0 \<le> ir_lower ?s0"
  proof -
    have "0 \<le> invdr * (rj - rmin) - 0.5" using off by simp
    then show ?thesis by (simp add: linear_weights_sel)
  qed
  have up: "ir_upper ?s0 = ir_lower ?s0 + 1" "iz_upper ?s0 = iz_lower ?s0 + 1" "Sr_guard ?s0 = 0"
    by (simp_all add: linear_weights_sel)
  show "0 \<le> ir_lower s" "ir_lower s < Nr" "0 \<le> ir_upper s" "ir_upper s < Nr"
    using rb grid(2) by (simp_all add: s linear_boundaries_sel Let_def up)
  show "0 \<le> iz_lower s" "iz_lower s < Nz" "0 \<le> iz_upper s" "iz_upper s < Nz"
    using zb grid(1) by (simp_all add: s linear_boundaries_sel Let_def up)
  show "Sr_guard s = 0" using rb by (simp add: s linear_boundaries_sel up)
  show "Sr_lower s + Sr_upper s = 1"
    using rb linear_weights_S(1)[of invdz zmin invdr rmin rj zj]
    by (simp add: s linear_boundaries_sel)
  show "Sz_lower s + Sz_upper s = 1"
    using linear_weights_S(2)[of invdz zmin invdr rmin rj zj]
    by (simp add: s linear_boundaries_sel)
qed

lemma linear_interpolation_uniform:
  fixes Nz Nr :: int and S_ll S_lu S_ul S_uu guard_factor :: real
  assumes "0 \<le> izl" "izl < Nz" "0 \<le> izu" "izu < Nz" "0 \<le> irl" "irl < Nr" "0 \<le> iru" "iru < Nr"
    and "S_ll + S_lu + S_ul + S_uu = 1"
  shows "linear_interpolation guard_factor (uniform_array Nz Nr c) izl izu irl iru
           S_ll S_lu 0 S_ul S_uu 0 = c"
proof -
  have "linear_interpolation guard_factor (uniform_array Nz Nr c) izl izu irl iru
           S_ll S_lu 0 S_ul S_uu 0 = complex_of_real (S_ll + S_lu + S_ul + S_uu) * c"
    using assms(1-8) by (simp add: linear_interpolation_def array_item_uniform algebra_simps)
  then show ?thesis using assms(9) by simp
qed

lemma add_linear_gather_uniform:
  fixes Nz Nr mode :: int and S_ll S_lu S_ul S_uu Fr Ft Fz :: real
  assumes "0 \<le> izl" "izl < Nz" "0 \<le> izu" "izu < Nz" "0 \<le> irl" "irl < Nr" "0 \<le> iru" "iru < Nr"
    and "S_ll + S_lu + S_ul + S_uu = 1"
  shows "add_linear_gather_for_mode fold_back mode Fr Ft Fz e
           (uniform_array Nz Nr c1) (uniform_array Nz Nr c2) (uniform_array Nz Nr c3)
           izl izu irl iru S_ll S_lu 0 S_ul S_uu 0
         = (Fr + Re (c1 * e), Ft + Re (c2 * e), Fz + Re (c3 * e))"
  by (cases "fold_back mode")
     (simp add: add_linear_gather_for_mode_def linear_interpolation_uniform[OF assms])


lemma gather_linear_uniform:
  fixes dz' invdz zmin zj invdr rmin rj xj yj cos_t sin_t :: real and Nz Nr :: int
    and c_r c_t c_z b_r b_t b_z :: complex
  assumes grid: "2 \<le> Nz" "1 \<le> Nr" "0 < dz'" "invdz = 1 / dz'"
    and box: "zmin \<le> zj" "zj \<le> zmin + of_int Nz * dz'"
    and cyl: "cylindrical_conversion xj yj = (rj, cos_t, sin_t)"
    and off: "1 / 2 \<le> invdr * (rj - rmin)"
  shows "gather_linear_for_particle (add_linear_gather_for_mode fold_back)
           invdz zmin Nz invdr rmin Nr
           (uniform_array Nz Nr c_r) (uniform_array Nz Nr c_t) (uniform_array Nz Nr c_z)
           (uniform_array Nz Nr 0) (uniform_array Nz Nr 0) (uniform_array Nz Nr 0)
           (uniform_array Nz Nr b_r) (uniform_array Nz Nr b_t) (uniform_array Nz Nr b_z)
           (uniform_array Nz Nr 0) (uniform_array Nz Nr 0) (uniform_array Nz Nr 0)
           xj yj zj
         = (cos_t * Re c_r - sin_t * Re c_t, sin_t * Re c_r + cos_t * Re c_t, Re c_z,
            cos_t * Re b_r - sin_t * Re b_t, sin_t * Re b_r + cos_t * Re b_t, Re b_z)"
proof -
  let ?s = "linear_shape invdz zmin Nz invdr rmin Nr rj zj"
  note st = linear_shape_off_axis[OF grid box off]
  have one: "Sz_lower ?s * Sr_lower ?s + Sz_lower ?s * Sr_upper ?s
      + Sz_upper ?s * Sr_lower ?s + Sz_upper ?s * Sr_upper ?s = 1"
  proof -
    have "Sz_lower ?s * Sr_lower ?s + Sz_lower ?s * Sr_upper ?s
      + Sz_upper ?s * Sr_lower ?s + Sz_upper ?s * Sr_upper ?s
      = (Sz_lower ?s + Sz_upper ?s) * (Sr_lower ?s + Sr_upper ?s)"
      by (simp add: algebra_simps)
    then show ?thesis by (simp add: st(10,11))
  qed
  note add = add_linear_gather_uniform[OF st(5,6,7,8,1,2,3,4) one]
  show ?thesis
    by (simp add: gather_linear_for_particle_def cyl Let_def st(9) add)
qed


lemma cubic_term_uniform:
  fixes Nz Nr ir iz :: int and u v :: real
  assumes "0 \<le> ir" "1 \<le> Nr" "- Nz \<le> iz" "iz < 2 * Nz" "0 < Nz"
  shows "(case cubic_radial_index below Nr ir of (ir', factor) \<Rightarrow>
            complex_of_real (factor * u * v)
            * array_item (uniform_array Nz Nr c) (cubic_longitudinal_index Nz iz) ir')
         = complex_of_real (u * v) * c"
proof -
  have zr: "0 \<le> cubic_longitudinal_index Nz iz" "cubic_longitudinal_index Nz iz < Nz"
    using assms(3,4,5) by (simp_all add: cubic_longitudinal_index_def)
  show ?thesis
  proof (cases "ir > Nr - 1")
    case True
    then have "cubic_radial_index below Nr ir = (Nr - 1, 1)"
      using assms(1) by (simp add: cubic_radial_index_def)
    then show ?thesis using assms(2) zr by (simp add: array_item_uniform)
  next
    case False
    then have "cubic_radial_index below Nr ir = (ir, 1)"
      using assms(1) by (simp add: cubic_radial_index_def)
    then show ?thesis using False assms(1) zr by (simp add: array_item_uniform)
  qed
qed

lemma cubic_interpolation_uniform:
  fixes Nz Nr ir_lowest iz_lowest :: int and s0 s1 s2 s3 t0 t1 t2 t3 :: real
  assumes "0 \<le> ir_lowest" "1 \<le> Nr" "2 \<le> Nz" "- 2 \<le> iz_lowest" "iz_lowest \<le> Nz - 2"
    and "s0 + s1 + s2 + s3 = 1" "t0 + t1 + t2 + t3 = 1"
  shows "cubic_interpolation below (uniform_array Nz Nr c) ir_lowest iz_lowest
           [s0, s1, s2, s3] [t0, t1, t2, t3] Nr Nz = c"
proof -
  have point: "(case cubic_radial_index below Nr (ir_lowest + int k) of (ir', factor) \<Rightarrow>
            complex_of_real (factor * u * v)
            * array_item (uniform_array Nz Nr c)
                (cubic_longitudinal_index Nz (iz_lowest + int l)) ir')
         = complex_of_real (u * v) * c" if "l \<in> set [0, 1, 2, 3]" for k l :: nat and u v :: real
  proof -
    have "l < 4" using that by auto
    then show ?thesis using assms(1-5) by (intro cubic_term_uniform) simp_all
  qed
  have inner: "(\<Sum>index_z\<leftarrow>[0, 1, 2, 3].
        case cubic_radial_index below Nr (ir_lowest + int k) of (ir, factor) \<Rightarrow>
          complex_of_real (factor * ([s0, s1, s2, s3] ! k) * ([t0, t1, t2, t3] ! index_z))
          * array_item (uniform_array Nz Nr c)
              (cubic_longitudinal_index Nz (iz_lowest + int index_z)) ir)
      = (\<Sum>index_z\<leftarrow>[0, 1, 2, 3].
          complex_of_real (([s0, s1, s2, s3] ! k) * ([t0, t1, t2, t3] ! index_z)) * c)"
    for k :: nat
    by (rule arg_cong[where f = sum_list], rule map_cong[OF refl], rule point)
  have "cubic_interpolation below (uniform_array Nz Nr c) ir_lowest iz_lowest
           [s0, s1, s2, s3] [t0, t1, t2, t3] Nr Nz
        = (\<Sum>index_r\<leftarrow>[0, 1, 2, 3]. \<Sum>index_z\<leftarrow>[0, 1, 2, 3].
            complex_of_real (([s0, s1, s2, s3] ! index_r) * ([t0, t1, t2, t3] ! index_z)) * c)"
    unfolding cubic_interpolation_def inner ..
  also have "\<dots> = complex_of_real ((s0 + s1 + s2 + s3) * (t0 + t1 + t2 + t3)) * c"
    by (simp add: algebra_simps)
  finally show ?thesis using assms(6,7) by simp
qed


lemma cubic_shape_factors_sum:
  fixes u :: real
  obtains s0 s1 s2 s3 where "cubic_shape_factors u = [s0, s1, s2, s3]" "s0 + s1 + s2 + s3 = 1"
proof
  show "cubic_shape_factors u = [- 1 / 6 * (u - 2) ^ 3,
      1 / 6 * (3 * (u - 1) ^ 3 - 6 * (u - 1)\<^sup>2 + 4),
      1 / 6 * (3 * (2 - u) ^ 3 - 6 * (2 - u)\<^sup>2 + 4),
      - 1 / 6 * (1 - u) ^ 3]"
    by (simp add: cubic_shape_factors_def)
  show "- 1 / 6 * (u - 2) ^ 3 + 1 / 6 * (3 * (u - 1) ^ 3 - 6 * (u - 1)\<^sup>2 + 4)
      + 1 / 6 * (3 * (2 - u) ^ 3 - 6 * (2 - u)\<^sup>2 + 4) + - 1 / 6 * (1 - u) ^ 3 = 1"
    by (simp add: power2_eq_square power3_eq_cube algebra_simps)
qed

lemma add_cubic_gather_uniform:
  fixes Nz Nr ir_lowest iz_lowest mode :: int and Fr Ft Fz u v :: real
  assumes "0 \<le> ir_lowest" "1 \<le> Nr" "2 \<le> Nz" "- 2 \<le> iz_lowest" "iz_lowest \<le> Nz - 2"
  shows "add_cubic_gather_for_mode below_axis mode Fr Ft Fz e
           (uniform_array Nz Nr c1) (uniform_array Nz Nr c2) (uniform_array Nz Nr c3)
           ir_lowest iz_lowest (cubic_shape_factors u) (cubic_shape_factors v) Nr Nz
         = (Fr + Re (c1 * e), Ft + Re (c2 * e), Fz + Re (c3 * e))"
proof -
  obtain s0 s1 s2 s3 where su: "cubic_shape_factors u = [s0, s1, s2, s3]" "s0 + s1 + s2 + s3 = 1"
    by (rule cubic_shape_factors_sum)
  obtain t0 t1 t2 t3 where sv: "cubic_shape_factors v = [t0, t1, t2, t3]" "t0 + t1 + t2 + t3 = 1"
    by (rule cubic_shape_factors_sum)
  note ci = cubic_interpolation_uniform[OF assms su(2) sv(2)]
  show ?thesis
    by (simp add: add_cubic_gather_for_mode_def su(1) sv(1) ci)
qed

lemma gather_cubic_uniform:
  fixes dz' invdz zmin zj invdr rmin rj xj yj cos_t sin_t :: real and Nz Nr :: int
    and c_r c_t c_z b_r b_t b_z :: complex
  assumes grid: "2 \<le> Nz" "1 \<le> Nr" "0 < dz'" "invdz = 1 / dz'"
    and box: "zmin \<le> zj" "zj \<le> zmin + of_int Nz * dz'"
    and cyl: "cylindrical_conversion xj yj = (rj, cos_t, sin_t)"
    and off: "3 / 2 \<le> invdr * (rj - rmin)"
  shows "gather_cubic_for_particle (add_cubic_gather_for_mode below_axis)
           invdz zmin Nz invdr rmin Nr
           (uniform_array Nz Nr c_r) (uniform_array Nz Nr c_t) (uniform_array Nz Nr c_z)
           (uniform_array Nz Nr 0) (uniform_array Nz Nr 0) (uniform_array Nz Nr 0)
           (uniform_array Nz Nr b_r) (uniform_array Nz Nr b_t) (uniform_array Nz Nr b_z)
           (uniform_array Nz Nr 0) (uniform_array Nz Nr 0) (uniform_array Nz Nr 0)
           xj yj zj
         = (cos_t * Re c_r - sin_t * Re c_t, sin_t * Re c_r + cos_t * Re c_t, Re c_z,
            cos_t * Re b_r - sin_t * Re b_t, sin_t * Re b_r + cos_t * Re b_t, Re b_z)"
proof -
  define ir_lowest where "ir_lowest = \<lfloor>invdr * (rj - rmin) - 1 / 2\<rfloor> - 1"
  define iz_lowest where "iz_lowest = \<lfloor>invdz * (zj - zmin) - 1 / 2\<rfloor> - 1"
  have cw: "cubic_weights (invdr * (rj - rmin) - 1 / 2)
      = (ir_lowest, cubic_shape_factors (invdr * (rj - rmin) - 1 / 2 - of_int ir_lowest))"
    "cubic_weights (invdz * (zj - zmin) - 1 / 2)
      = (iz_lowest, cubic_shape_factors (invdz * (zj - zmin) - 1 / 2 - of_int iz_lowest))"
    by (simp_all only: cubic_weights_def Let_def ir_lowest_def iz_lowest_def)
  have r0: "0 \<le> ir_lowest"
  proof -
    have "1 \<le> invdr * (rj - rmin) - 1 / 2" using off by simp
    then have "1 \<le> \<lfloor>invdr * (rj - rmin) - 1 / 2\<rfloor>" by linarith
    then show ?thesis by (simp add: ir_lowest_def)
  qed
  have half: "(0.5 :: real) = 1 / 2" by simp
  have z0: "- 2 \<le> iz_lowest" "iz_lowest \<le> Nz - 2"
    using z_floor_box[OF grid(3,4) box, unfolded half] unfolding iz_lowest_def by linarith+
  note add = add_cubic_gather_uniform[OF r0 grid(2,1) z0]
  show ?thesis
    unfolding gather_cubic_for_particle_def cyl Let_def half prod.case cw
    by (simp add: add)
qed


lemma linear_shape_on_axis:
  fixes dz' invdz zmin zj invdr :: real and Nz Nr :: int
  assumes grid: "2 \<le> Nz" "1 \<le> Nr" "0 < dz'" "invdz = 1 / dz'"
    and box: "zmin \<le> zj" "zj \<le> zmin + of_int Nz * dz'"
  defines "s \<equiv> linear_shape invdz zmin Nz invdr 0 Nr 0 zj"
  shows "ir_lower s = 0" "ir_upper s = 0"
    "0 \<le> iz_lower s" "iz_lower s < Nz" "0 \<le> iz_upper s" "iz_upper s < Nz"
    "Sr_lower s = 0" "Sr_upper s = 1 / 2" "Sr_guard s = 1 / 2" "Sz_lower s + Sz_upper s = 1"
proof -
  let ?s0 = "linear_weights invdz zmin invdr 0 0 zj"
  have s: "s = linear_boundaries Nz Nr ?s0" by (simp add: s_def linear_shape_def)
  have zb: "- 1 \<le> iz_lower ?s0" "iz_lower ?s0 \<le> Nz - 1"
    using z_floor_box[OF grid(3,4) box] by (simp_all add: linear_weights_sel)
  have r0: "ir_lower ?s0 = - 1" "ir_upper ?s0 = 0" "Sr_lower ?s0 = 1 / 2" "Sr_upper ?s0 = 1 / 2"
    by (simp_all add: linear_weights_def Let_def)
  have up: "iz_upper ?s0 = iz_lower ?s0 + 1"
    by (simp add: linear_weights_sel)
  show "ir_lower s = 0" "ir_upper s = 0"
    using grid(2) by (simp_all add: s linear_boundaries_sel Let_def r0)
  show "0 \<le> iz_lower s" "iz_lower s < Nz" "0 \<le> iz_upper s" "iz_upper s < Nz"
    using zb grid(1) by (simp_all add: s linear_boundaries_sel Let_def up)
  show "Sr_lower s = 0" "Sr_upper s = 1 / 2" "Sr_guard s = 1 / 2"
    by (simp_all add: s linear_boundaries_sel r0)
  show "Sz_lower s + Sz_upper s = 1"
    using linear_weights_S(2)[of invdz zmin invdr 0 0 zj]
    by (simp add: s linear_boundaries_sel)
qed

lemma add_linear_gather_on_axis:
  fixes Nz Nr mode :: int and Szl Szu Fr Ft Fz f_r f_t f_z :: real
  assumes "0 \<le> izl" "izl < Nz" "0 \<le> izu" "izu < Nz" "1 \<le> Nr" "Szl + Szu = 1"
    and "fold_back mode = (f_r, f_t, f_z)"
  shows "add_linear_gather_for_mode fold_back mode Fr Ft Fz e
           (uniform_array Nz Nr c1) (uniform_array Nz Nr c2) (uniform_array Nz Nr c3)
           izl izu 0 0 0 (Szl / 2) (Szl / 2) 0 (Szu / 2) (Szu / 2)
         = (Fr + Re (complex_of_real ((1 + f_r) / 2) * c1 * e),
            Ft + Re (complex_of_real ((1 + f_t) / 2) * c2 * e),
            Fz + Re (complex_of_real ((1 + f_z) / 2) * c3 * e))"
proof -
  have li: "linear_interpolation f (uniform_array Nz Nr c) izl izu 0 0
      0 (Szl / 2) (Szl / 2) 0 (Szu / 2) (Szu / 2)
      = complex_of_real ((1 + f) / 2) * c" for f :: real and c :: complex
  proof -
    have "linear_interpolation f (uniform_array Nz Nr c) izl izu 0 0
      0 (Szl / 2) (Szl / 2) 0 (Szu / 2) (Szu / 2)
      = complex_of_real ((Szl + Szu) * ((1 + f) / 2)) * c"
      using assms(1-5) by (simp add: linear_interpolation_def array_item_uniform algebra_simps)
    then show ?thesis using assms(6) by simp
  qed
  show ?thesis
    by (simp only: add_linear_gather_for_mode_def assms(7) prod.case li)
qed

lemma gather_linear_on_axis:
  fixes dz' invdz zmin zj invdr f_r f_t f_z :: real and Nz Nr :: int
    and c_r c_t c_z b_r b_t b_z :: complex
  assumes grid: "2 \<le> Nz" "1 \<le> Nr" "0 < dz'" "invdz = 1 / dz'"
    and box: "zmin \<le> zj" "zj \<le> zmin + of_int Nz * dz'"
    and fb: "fold_back 0 = (f_r, f_t, f_z)"
  shows "gather_linear_for_particle (add_linear_gather_for_mode fold_back)
           invdz zmin Nz invdr 0 Nr
           (uniform_array Nz Nr c_r) (uniform_array Nz Nr c_t) (uniform_array Nz Nr c_z) (uniform_array Nz Nr 0) (uniform_array Nz Nr 0) (uniform_array Nz Nr 0) (uniform_array Nz Nr b_r) (uniform_array Nz Nr b_t) (uniform_array Nz Nr b_z) (uniform_array Nz Nr 0) (uniform_array Nz Nr 0) (uniform_array Nz Nr 0)
           0 0 zj
         = ((1 + f_r) / 2 * Re c_r, (1 + f_t) / 2 * Re c_t, (1 + f_z) / 2 * Re c_z,
            (1 + f_r) / 2 * Re b_r, (1 + f_t) / 2 * Re b_t, (1 + f_z) / 2 * Re b_z)"
proof -
  let ?s = "linear_shape invdz zmin Nz invdr 0 Nr 0 zj"
  note st = linear_shape_on_axis[OF grid box, of invdr]
  obtain g_r g_t g_z where fb1: "fold_back 1 = (g_r, g_t, g_z)"
    by (cases "fold_back 1")
  note add0 = add_linear_gather_on_axis[where fold_back = fold_back and mode = 0,
      OF st(3,4,5,6) grid(2) st(10) fb]
  note add1 = add_linear_gather_on_axis[where fold_back = fold_back and mode = 1,
      OF st(3,4,5,6) grid(2) st(10) fb1]
  have cyl: "cylindrical_conversion 0 0 = (0, 1, 0)"
    by (simp add: cylindrical_conversion_def)
  show ?thesis
    by (simp add: gather_linear_for_particle_def cyl Let_def st(1,2,7,8,9) add0 add1)
qed


text \<open>
  Claim C1, amended. Take a grid with \<open>Nz \<ge> 2\<close> and \<open>Nr \<ge> 1\<close> cells whose mode-1 arrays
  are all zero and whose six mode-0 arrays are uniform, with constants \<open>c_r\<close>, \<open>c_t\<close>, \<open>c_z\<close>
  for \<open>Er\<close>, \<open>Et\<close>, \<open>Ez\<close> and \<open>b_r\<close>, \<open>b_t\<close>, \<open>b_z\<close> for \<open>Br\<close>, \<open>Bt\<close>, \<open>Bz\<close> (one array
  uniformly \<open>c\<close> and all others zero is the case where the other constants are 0), and
  a particle with \<open>zmin \<le> z \<le> zmax\<close>. For a particle whose radius is at least half a cell
  above \<open>rmin\<close> (linear order), or at least one cell and a half (cubic order), the gather
  writes \<open>Ex = cos * Re c_r - sin * Re c_t\<close>, \<open>Ey = sin * Re c_r + cos * Re c_t\<close> and
  \<open>Ez = Re c_z\<close>, and the same for \<open>B\<close>, whatever the rules for the guard bucket and for
  the cubic indices below the axis: a uniform longitudinal field is reproduced exactly,
  a uniform radial or azimuthal field is rotated by the angle of the particle. For a
  particle on the axis (\<open>x = y = 0\<close>, where \<open>cos = 1\<close> and \<open>sin = 0\<close>) the linear gather writes
  \<open>(1 + f) / 2 * Re c\<close> for each component, \<open>f\<close> being the factor with which the guard
  bucket of mode 0 is folded back into that component: with \<open>Er\<close> uniformly 1 it writes
  \<open>Ex = 1\<close> exactly when that factor is 1, and \<open>Ex = 1 / 2\<close> when the guard bucket is not
  applied.
\<close>

theorem uniform_mode0_field_gather:
  fixes dz' invdz zmin zj invdr rmin rj xj yj cos_t sin_t f_r f_t f_z :: real and Nz Nr :: int
    and c_r c_t c_z b_r b_t b_z :: complex
    and fold_back :: "int \<Rightarrow> real \<times> real \<times> real"
    and below_axis :: "int \<Rightarrow> int \<Rightarrow> int \<times> real"
  assumes grid: "2 \<le> Nz" "1 \<le> Nr" "0 < dz'" "invdz = 1 / dz'"
    and box: "zmin \<le> zj" "zj \<le> zmin + of_int Nz * dz'"
    and cyl: "cylindrical_conversion xj yj = (rj, cos_t, sin_t)"
    and fb: "fold_back 0 = (f_r, f_t, f_z)"
  shows "(1 / 2 \<le> invdr * (rj - rmin) \<longrightarrow>
           gather_linear_for_particle (add_linear_gather_for_mode fold_back)
             invdz zmin Nz invdr rmin Nr
             (uniform_array Nz Nr c_r) (uniform_array Nz Nr c_t) (uniform_array Nz Nr c_z) (uniform_array Nz Nr 0) (uniform_array Nz Nr 0) (uniform_array Nz Nr 0) (uniform_array Nz Nr b_r) (uniform_array Nz Nr b_t) (uniform_array Nz Nr b_z) (uniform_array Nz Nr 0) (uniform_array Nz Nr 0) (uniform_array Nz Nr 0)
             xj yj zj
           = (cos_t * Re c_r - sin_t * Re c_t, sin_t * Re c_r + cos_t * Re c_t, Re c_z,
            cos_t * Re b_r - sin_t * Re b_t, sin_t * Re b_r + cos_t * Re b_t, Re b_z))
    \<and> (3 / 2 \<le> invdr * (rj - rmin) \<longrightarrow>
           gather_cubic_for_particle (add_cubic_gather_for_mode below_axis)
             invdz zmin Nz invdr rmin Nr
             (uniform_array Nz Nr c_r) (uniform_array Nz Nr c_t) (uniform_array Nz Nr c_z) (uniform_array Nz Nr 0) (uniform_array Nz Nr 0) (uniform_array Nz Nr 0) (uniform_array Nz Nr b_r) (uniform_array Nz Nr b_t) (uniform_array Nz Nr b_z) (uniform_array Nz Nr 0) (uniform_array Nz Nr 0) (uniform_array Nz Nr 0)
             xj yj zj
           = (cos_t * Re c_r - sin_t * Re c_t, sin_t * Re c_r + cos_t * Re c_t, Re c_z,
            cos_t * Re b_r - sin_t * Re b_t, sin_t * Re b_r + cos_t * Re b_t, Re b_z))
    \<and> (xj = 0 \<and> yj = 0 \<and> rmin = 0 \<longrightarrow>
           gather_linear_for_particle (add_linear_gather_for_mode fold_back)
             invdz zmin Nz invdr rmin Nr
             (uniform_array Nz Nr c_r) (uniform_array Nz Nr c_t) (uniform_array Nz Nr c_z) (uniform_array Nz Nr 0) (uniform_array Nz Nr 0) (uniform_array Nz Nr 0) (uniform_array Nz Nr b_r) (uniform_array Nz Nr b_t) (uniform_array Nz Nr b_z) (uniform_array Nz Nr 0) (uniform_array Nz Nr 0) (uniform_array Nz Nr 0)
             xj yj zj
           = ((1 + f_r) / 2 * Re c_r, (1 + f_t) / 2 * Re c_t, (1 + f_z) / 2 * Re c_z,
              (1 + f_r) / 2 * Re b_r, (1 + f_t) / 2 * Re b_t, (1 + f_z) / 2 * Re b_z))"
proof (intro conjI impI)
  assume "1 / 2 \<le> invdr * (rj - rmin)"
  then show "gather_linear_for_particle (add_linear_gather_for_mode fold_back)
             invdz zmin Nz invdr rmin Nr
             (uniform_array Nz Nr c_r) (uniform_array Nz Nr c_t) (uniform_array Nz Nr c_z) (uniform_array Nz Nr 0) (uniform_array Nz Nr 0) (uniform_array Nz Nr 0) (uniform_array Nz Nr b_r) (uniform_array Nz Nr b_t) (uniform_array Nz Nr b_z) (uniform_array Nz Nr 0) (uniform_array Nz Nr 0) (uniform_array Nz Nr 0)
             xj yj zj
           = (cos_t * Re c_r - sin_t * Re c_t, sin_t * Re c_r + cos_t * Re c_t, Re c_z,
            cos_t * Re b_r - sin_t * Re b_t, sin_t * Re b_r + cos_t * Re b_t, Re b_z)"
    by (rule gather_linear_uniform[OF grid box cyl])
next
  assume "3 / 2 \<le> invdr * (rj - rmin)"
  then show "gather_cubic_for_particle (add_cubic_gather_for_mode below_axis)
             invdz zmin Nz invdr rmin Nr
             (uniform_array Nz Nr c_r) (uniform_array Nz Nr c_t) (uniform_array Nz Nr c_z) (uniform_array Nz Nr 0) (uniform_array Nz Nr 0) (uniform_array Nz Nr 0) (uniform_array Nz Nr b_r) (uniform_array Nz Nr b_t) (uniform_array Nz Nr b_z) (uniform_array Nz Nr 0) (uniform_array Nz Nr 0) (uniform_array Nz Nr 0)
             xj yj zj
           = (cos_t * Re c_r - sin_t * Re c_t, sin_t * Re c_r + cos_t * Re c_t, Re c_z,
            cos_t * Re b_r - sin_t * Re b_t, sin_t * Re b_r + cos_t * Re b_t, Re b_z)"
    by (rule gather_cubic_uniform[OF grid box cyl])
next
  assume ax: "xj = 0 \<and> yj = 0 \<and> rmin = 0"
  show "gather_linear_for_particle (add_linear_gather_for_mode fold_back)
             invdz zmin Nz invdr rmin Nr
             (uniform_array Nz Nr c_r) (uniform_array Nz Nr c_t) (uniform_array Nz Nr c_z) (uniform_array Nz Nr 0) (uniform_array Nz Nr 0) (uniform_array Nz Nr 0) (uniform_array Nz Nr b_r) (uniform_array Nz Nr b_t) (uniform_array Nz Nr b_z) (uniform_array Nz Nr 0) (uniform_array Nz Nr 0) (uniform_array Nz Nr 0)
             xj yj zj
           = ((1 + f_r) / 2 * Re c_r, (1 + f_t) / 2 * Re c_t, (1 + f_z) / 2 * Re c_z,
              (1 + f_r) / 2 * Re b_r, (1 + f_t) / 2 * Re b_t, (1 + f_z) / 2 * Re b_z)"
    using gather_linear_on_axis[where fold_back = fold_back and invdr = invdr
        and c_r = c_r and c_t = c_t and c_z = c_z and b_r = b_r and b_t = b_t and b_z = b_z,
        OF grid box fb] ax
    by simp
qed

text \<open>The cylindrical conversion of three positions.\<close>

lemma cylindrical_conversion_values:
  "cylindrical_conversion 2 0 = (2, 1, 0)"
  "cylindrical_conversion 0 2 = (2, 0, 1)"
  "cylindrical_conversion 0 0 = (0, 1, 0)"
  by (simp_all add: cylindrical_conversion_def)

theorem uniform_mode0_field_gather_witness:
  "gather_linear_for_particle (add_linear_gather_for_mode (\<lambda>m. (0, 0, 0))) 1 0 2 1 0 4
     (uniform_array 2 4 1) (uniform_array 2 4 0) (uniform_array 2 4 0) (uniform_array 2 4 0) (uniform_array 2 4 0) (uniform_array 2 4 0) (uniform_array 2 4 0) (uniform_array 2 4 0) (uniform_array 2 4 0) (uniform_array 2 4 0) (uniform_array 2 4 0) (uniform_array 2 4 0) 2 0 1 = (1, 0, 0, 0, 0, 0)
   \<and> gather_cubic_for_particle (add_cubic_gather_for_mode (\<lambda>m ir. (0, 0))) 1 0 2 1 0 4
     (uniform_array 2 4 1) (uniform_array 2 4 0) (uniform_array 2 4 0) (uniform_array 2 4 0) (uniform_array 2 4 0) (uniform_array 2 4 0) (uniform_array 2 4 0) (uniform_array 2 4 0) (uniform_array 2 4 0) (uniform_array 2 4 0) (uniform_array 2 4 0) (uniform_array 2 4 0) 2 0 1 = (1, 0, 0, 0, 0, 0)
   \<and> gather_linear_for_particle (add_linear_gather_for_mode (\<lambda>m. (0, 0, 0))) 1 0 2 1 0 4
     (uniform_array 2 4 1) (uniform_array 2 4 0) (uniform_array 2 4 0) (uniform_array 2 4 0) (uniform_array 2 4 0) (uniform_array 2 4 0) (uniform_array 2 4 0) (uniform_array 2 4 0) (uniform_array 2 4 0) (uniform_array 2 4 0) (uniform_array 2 4 0) (uniform_array 2 4 0) 0 0 1 = (1 / 2, 0, 0, 0, 0, 0)
   \<and> gather_linear_for_particle (add_linear_gather_for_mode (\<lambda>m. (1, 1, 1))) 1 0 2 1 0 4
     (uniform_array 2 4 1) (uniform_array 2 4 0) (uniform_array 2 4 0) (uniform_array 2 4 0) (uniform_array 2 4 0) (uniform_array 2 4 0) (uniform_array 2 4 0) (uniform_array 2 4 0) (uniform_array 2 4 0) (uniform_array 2 4 0) (uniform_array 2 4 0) (uniform_array 2 4 0) 0 0 1 = (1, 0, 0, 0, 0, 0)"
proof -
  have grid: "(2::int) \<le> 2" "(1::int) \<le> 4" "(0::real) < 1" "(1::real) = 1 / 1" by simp_all
  have box: "(0::real) \<le> 1" "(1::real) \<le> 0 + of_int 2 * 1" by simp_all
  have fb0: "(\<lambda>m::int. (0::real, 0::real, 0::real)) 0 = (0, 0, 0)" by simp
  have fb1: "(\<lambda>m::int. (1::real, 1::real, 1::real)) 0 = (1, 1, 1)" by simp
  note off = uniform_mode0_field_gather[where fold_back = "\<lambda>m. (0, 0, 0)"
        and invdr = 1 and rmin = 0
        and c_r = 1 and c_t = 0 and c_z = 0 and b_r = 0 and b_t = 0 and b_z = 0
        and below_axis = "\<lambda>m ir. (0, 0)",
      OF grid box cylindrical_conversion_values(1) fb0]
  note ax0 = uniform_mode0_field_gather[where fold_back = "\<lambda>m. (0, 0, 0)"
        and invdr = 1 and rmin = 0
        and c_r = 1 and c_t = 0 and c_z = 0 and b_r = 0 and b_t = 0 and b_z = 0
        and below_axis = "\<lambda>m ir. (0, 0)",
      OF grid box cylindrical_conversion_values(3) fb0]
  note ax1 = uniform_mode0_field_gather[where fold_back = "\<lambda>m. (1, 1, 1)"
        and invdr = 1 and rmin = 0
        and c_r = 1 and c_t = 0 and c_z = 0 and b_r = 0 and b_t = 0 and b_z = 0
        and below_axis = "\<lambda>m ir. (0, 0)",
      OF grid box cylindrical_conversion_values(3) fb1]
  show ?thesis
    using off ax0 ax1 by simp
qed

text \<open>
  The claim as first stated gives \<open>Ex = Re c\<close> for a uniform mode-0 \<open>Er = c\<close> at every
  position. For the particle at \<open>x = 0\<close>, \<open>y = 2\<close>, \<open>z = 1\<close> on the grid with \<open>dz = dr = 1\<close> and
  \<open>Er\<close> uniformly 1 the guard weight is zero, \<open>cos = 0\<close> and \<open>sin = 1\<close>: the kernel writes
  \<open>Ex = 0\<close> and \<open>Ey = 1\<close>.
\<close>

theorem uniform_radial_field_rotated_counterexample:
  "gather_linear_for_particle (add_linear_gather_for_mode (\<lambda>m. (0, 0, 0))) 1 0 2 1 0 4
     (uniform_array 2 4 1) (uniform_array 2 4 0) (uniform_array 2 4 0) (uniform_array 2 4 0) (uniform_array 2 4 0) (uniform_array 2 4 0) (uniform_array 2 4 0) (uniform_array 2 4 0) (uniform_array 2 4 0) (uniform_array 2 4 0) (uniform_array 2 4 0) (uniform_array 2 4 0) 0 2 1 = (0, 1, 0, 0, 0, 0)
   \<and> gather_field_numba_linear (add_linear_gather_for_mode (\<lambda>m. (0, 0, 0))) [0] [0] [2] [1]
       1 0 2 1 0 4
       (uniform_array 2 4 1) (uniform_array 2 4 0) (uniform_array 2 4 0) (uniform_array 2 4 0) (uniform_array 2 4 0) (uniform_array 2 4 0) (uniform_array 2 4 0) (uniform_array 2 4 0) (uniform_array 2 4 0) (uniform_array 2 4 0) (uniform_array 2 4 0) (uniform_array 2 4 0) [9] [9] [9] [9] [9] [9]
     = ([0], [1], [0], [0], [0], [0])"
proof -
  have grid: "(2::int) \<le> 2" "(1::int) \<le> 4" "(0::real) < 1" "(1::real) = 1 / 1" by simp_all
  have box: "(0::real) \<le> 1" "(1::real) \<le> 0 + of_int 2 * 1" by simp_all
  have off: "(1::real) / 2 \<le> 1 * (2 - 0)" by simp
  have p: "gather_linear_for_particle (add_linear_gather_for_mode (\<lambda>m. (0, 0, 0))) 1 0 2 1 0 4
     (uniform_array 2 4 1) (uniform_array 2 4 0) (uniform_array 2 4 0) (uniform_array 2 4 0) (uniform_array 2 4 0) (uniform_array 2 4 0) (uniform_array 2 4 0) (uniform_array 2 4 0) (uniform_array 2 4 0) (uniform_array 2 4 0) (uniform_array 2 4 0) (uniform_array 2 4 0) 0 2 1 = (0, 1, 0, 0, 0, 0)"
    using gather_linear_uniform[where fold_back = "\<lambda>m. (0, 0, 0)"
        and c_r = 1 and c_t = 0 and c_z = 0 and b_r = 0 and b_t = 0 and b_z = 0,
        OF grid box cylindrical_conversion_values(2) off]
    by simp
  show ?thesis
    by (simp add: p gather_field_numba_linear_def write_particle_fields_def)
qed

end
